theory Spec2Isabelle
  imports Main
begin

unbundle bit_operations_syntax

section \<open>Go strings and the library functions the harness calls\<close>

text \<open>
  A Go string is a sequence of bytes; it is modelled as \<open>string\<close>, a list of 8-bit
  characters. The functions of this section are those of the Go standard library that
  \<open>main.go\<close> and the older generation of the tool call on strings. They are written after
  the library's documented behaviour, restricted to the arguments the sources pass.
\<close>

definition newline :: char where
  "newline = CHR 0x0A"

text \<open>\<open>strings.Split(s, sep)\<close> for a one-byte separator: the pieces between the
  separators, always at least one piece.\<close>

fun Split :: "string \<Rightarrow> char \<Rightarrow> string list" where
  "Split [] sep = [[]]"
| "Split (c # cs) sep =
     (if c = sep then [] # Split cs sep
      else (case Split cs sep of [] \<Rightarrow> [[c]] | l # ls \<Rightarrow> (c # l) # ls))"

text \<open>The white space of \<open>unicode.IsSpace\<close>. In ASCII: tab, line feed, vertical tab, form
  feed, carriage return, space.\<close>

definition asciiSpace :: "char \<Rightarrow> bool" where
  "asciiSpace c \<longleftrightarrow>
     c = CHR 0x09 \<or> c = CHR 0x0A \<or> c = CHR 0x0B \<or> c = CHR 0x0C \<or> c = CHR 0x0D \<or> c = CHR 0x20"

text \<open>Beyond ASCII the white-space runes are U+0085, U+00A0, U+1680, U+2000 to U+200A,
  U+2028, U+2029, U+202F, U+205F and U+3000. \<open>space_width s\<close> is the number of bytes of the
  white-space rune whose UTF-8 encoding starts \<open>s\<close>, and 0 when \<open>s\<close> starts with none. Each of
  these encodings begins with a lead byte, which is never the continuation of another rune,
  so testing every byte position agrees with decoding rune by rune.\<close>

definition space_width :: "string \<Rightarrow> nat" where
  "space_width s =
     (case s of
        [] \<Rightarrow> 0
      | c # r \<Rightarrow>
          if asciiSpace c then 1
          else if c = CHR 0xC2 then
            (case r of d # _ \<Rightarrow> if d = CHR 0x85 \<or> d = CHR 0xA0 then 2 else 0 | [] \<Rightarrow> 0)
          else if c = CHR 0xE1 then
            (if take 2 r = [CHR 0x9A, CHR 0x80] then 3 else 0)
          else if c = CHR 0xE2 then
            (case r of
               d # e # _ \<Rightarrow>
                 if d = CHR 0x80 \<and>
                    ((0x80 \<le> (of_char e :: nat) \<and> (of_char e :: nat) \<le> 0x8A)
                     \<or> e = CHR 0xA8 \<or> e = CHR 0xA9 \<or> e = CHR 0xAF)
                 then 3
                 else if d = CHR 0x81 \<and> e = CHR 0x9F then 3 else 0
             | _ \<Rightarrow> 0)
          else if c = CHR 0xE3 then
            (if take 2 r = [CHR 0x80, CHR 0x80] then 3 else 0)
          else 0)"

text \<open>\<open>strings.Fields(s)\<close>: the maximal runs of non-space bytes, in order. \<open>cur\<close> is the
  field being read.\<close>

function Fields_from :: "string \<Rightarrow> string \<Rightarrow> string list" where
  "Fields_from cur [] = (if cur = [] then [] else [cur])"
| "Fields_from cur (c # cs) =
     (if space_width (c # cs) = 0 then Fields_from (cur @ [c]) cs
      else (if cur = [] then [] else [cur]) @ Fields_from [] (drop (space_width (c # cs) - 1) cs))"
  by pat_completeness auto
termination
  by (relation "measure (\<lambda>(cur, s). length s)") auto

definition Fields :: "string \<Rightarrow> string list" where
  "Fields s = Fields_from [] s"

text \<open>\<open>strings.HasPrefix\<close> and \<open>strings.Contains\<close>.\<close>

definition HasPrefix :: "string \<Rightarrow> string \<Rightarrow> bool" where
  "HasPrefix s p \<longleftrightarrow> length s \<ge> length p \<and> take (length p) s = p"

fun Contains :: "string \<Rightarrow> string \<Rightarrow> bool" where
  "Contains [] sub = (sub = [])"
| "Contains (c # cs) sub = (HasPrefix (c # cs) sub \<or> Contains cs sub)"

subsection \<open>Printing integers\<close>

text \<open>The verb \<open>%d\<close> on an \<open>int64\<close>: a minus sign for a negative number, then the decimal
  digits without leading zeros.\<close>

fun dec_digits :: "nat \<Rightarrow> string" where
  "dec_digits n =
     (if n < 10 then [char_of (48 + n)]
      else dec_digits (n div 10) @ [char_of (48 + n mod 10)])"

declare dec_digits.simps [simp del]

definition itoa :: "int \<Rightarrow> string" where
  "itoa i = (if i < 0 then CHR ''-'' # dec_digits (nat (- i)) else dec_digits (nat i))"

subsection \<open>\<open>strconv.ParseInt(s, 0, 64)\<close>\<close>

text \<open>The harness parses the fourth token of a counter line with base 0 and bit size 64.
  With base 0 the base comes from the prefix after the sign: \<open>0x\<close> is 16, \<open>0b\<close> is 2, \<open>0o\<close>
  or a plain leading \<open>0\<close> is 8, anything else 10, and underscores may separate digits.
  A \<open>uint64\<close> is a \<open>nat\<close> with the wrap-around modulo \<open>2 ^ 64\<close> written out, an \<open>int64\<close> an
  \<open>int\<close> wrapped by \<open>int64\<close>. The library of the time the tool was written knew neither
  \<open>0b\<close>, \<open>0o\<close> nor the underscores; on plain decimal numerals and on \<open>0x\<close> literals the two
  agree.\<close>

datatype NumError = ErrSyntax | ErrRange

definition maxUint64 :: nat where
  "maxUint64 = 2 ^ 64 - 1"

definition int64 :: "int \<Rightarrow> int" where
  "int64 x = (x + 2 ^ 63) mod 2 ^ 64 - 2 ^ 63"

definition lower :: "char \<Rightarrow> char" where
  "lower c = char_of ((of_char c :: nat) OR 32)"

text \<open>The digit a byte stands for: \<open>0\<close> to \<open>9\<close>, then the letters in either case from 10.\<close>

definition digit_of :: "char \<Rightarrow> nat option" where
  "digit_of c =
     (if 48 \<le> (of_char c :: nat) \<and> (of_char c :: nat) \<le> 57 then Some (of_char c - 48)
      else if 97 \<le> (of_char (lower c) :: nat) \<and> (of_char (lower c) :: nat) \<le> 122
        then Some (of_char (lower c) - 97 + 10)
      else None)"

text \<open>\<open>underscoreOK\<close>: underscores must separate digits, the base prefix counting as a
  digit. \<open>saw\<close> is the last kind of character seen.\<close>

fun underscore_scan :: "bool \<Rightarrow> char \<Rightarrow> string \<Rightarrow> bool" where
  "underscore_scan hex saw [] = (saw \<noteq> CHR ''_'')"
| "underscore_scan hex saw (c # cs) =
     (if (48 \<le> (of_char c :: nat) \<and> (of_char c :: nat) \<le> 57)
         \<or> (hex \<and> 97 \<le> (of_char (lower c) :: nat) \<and> (of_char (lower c) :: nat) \<le> 102)
      then underscore_scan hex (CHR ''0'') cs
      else if c = CHR ''_'' then
        (if saw \<noteq> CHR ''0'' then False else underscore_scan hex (CHR ''_'') cs)
      else if saw = CHR ''_'' then False
      else underscore_scan hex (CHR ''!'') cs)"

definition underscoreOK :: "string \<Rightarrow> bool" where
  "underscoreOK s0 =
     (let s = (if length s0 \<ge> 1 \<and> (hd s0 = CHR ''-'' \<or> hd s0 = CHR ''+'') then tl s0 else s0);
          pre = (length s \<ge> 2 \<and> hd s = CHR ''0'' \<and>
                 (lower (s ! 1) = CHR ''b'' \<or> lower (s ! 1) = CHR ''o'' \<or> lower (s ! 1) = CHR ''x''))
      in if pre then underscore_scan (lower (s ! 1) = CHR ''x'') (CHR ''0'') (drop 2 s)
         else underscore_scan False (CHR ''^'') s)"

text \<open>The digit loop of \<open>ParseUint\<close>: \<open>n\<close> is the value so far, \<open>underscores\<close> whether one
  was seen. A range error returns the largest value with the error.\<close>

fun ParseUint_loop :: "nat \<Rightarrow> nat \<Rightarrow> bool \<Rightarrow> string \<Rightarrow> (nat \<times> bool) \<times> NumError option" where
  "ParseUint_loop base n underscores [] = ((n, underscores), None)"
| "ParseUint_loop base n underscores (c # cs) =
     (if c = CHR ''_'' then ParseUint_loop base n True cs
      else (case digit_of c of
              None \<Rightarrow> ((0, underscores), Some ErrSyntax)
            | Some d \<Rightarrow>
                if d \<ge> base then ((0, underscores), Some ErrSyntax)
                else if n \<ge> maxUint64 div base + 1 then ((maxUint64, underscores), Some ErrRange)
                else if (n * base + d) mod 2 ^ 64 < n * base \<or> (n * base + d) mod 2 ^ 64 > maxUint64
                  then ((maxUint64, underscores), Some ErrRange)
                else ParseUint_loop base ((n * base + d) mod 2 ^ 64) underscores cs))"

definition ParseUint :: "string \<Rightarrow> nat \<times> NumError option" where
  "ParseUint s0 =
     (if s0 = [] then (0, Some ErrSyntax)
      else
        let (base, s) =
              (if hd s0 = CHR ''0'' then
                 (if length s0 \<ge> 3 \<and> lower (s0 ! 1) = CHR ''b'' then (2, drop 2 s0)
                  else if length s0 \<ge> 3 \<and> lower (s0 ! 1) = CHR ''o'' then (8, drop 2 s0)
                  else if length s0 \<ge> 3 \<and> lower (s0 ! 1) = CHR ''x'' then (16, drop 2 s0)
                  else (8, drop 1 s0))
               else (10, s0))
        in (case ParseUint_loop base 0 False s of
              ((n, underscores), Some e) \<Rightarrow> (n, Some e)
            | ((n, underscores), None) \<Rightarrow>
                if underscores \<and> \<not> underscoreOK s0 then (0, Some ErrSyntax) else (n, None)))"

definition ParseInt :: "string \<Rightarrow> int \<times> NumError option" where
  "ParseInt s0 =
     (if s0 = [] then (0, Some ErrSyntax)
      else
        let neg = (hd s0 = CHR ''-'');
            s = (if hd s0 = CHR ''+'' \<or> hd s0 = CHR ''-'' then tl s0 else s0);
            (un, err) = ParseUint s;
            cutoff = (2 :: nat) ^ 63
        in if err \<noteq> None \<and> err \<noteq> Some ErrRange then (0, err)
           else if \<not> neg \<and> un \<ge> cutoff then (int64 (int cutoff - 1), Some ErrRange)
           else if neg \<and> un > cutoff then (int64 (- int64 (int cutoff)), Some ErrRange)
           else (if neg then int64 (- int64 (int un)) else int64 (int un), None))"

subsection \<open>Numerals in the words of the specification\<close>

text \<open>The value the specification gives to the fourth token of a counter line, a decimal
  or \<open>0x\<close>-prefixed hexadecimal integer: an optional sign, then either \<open>0x\<close> or \<open>0X\<close> and
  hexadecimal digits in either case, or decimal digits, read in base 16 and base 10. This
  is the reading to compare \<open>ParseInt\<close> with; it knows nothing of octal.\<close>

definition spec_digit :: "char \<Rightarrow> nat option" where
  "spec_digit c =
     map_of
       [(CHR ''0'', 0), (CHR ''1'', 1), (CHR ''2'', 2), (CHR ''3'', 3), (CHR ''4'', 4),
        (CHR ''5'', 5), (CHR ''6'', 6), (CHR ''7'', 7), (CHR ''8'', 8), (CHR ''9'', 9),
        (CHR ''a'', 10), (CHR ''b'', 11), (CHR ''c'', 12), (CHR ''d'', 13), (CHR ''e'', 14),
        (CHR ''f'', 15), (CHR ''A'', 10), (CHR ''B'', 11), (CHR ''C'', 12), (CHR ''D'', 13),
        (CHR ''E'', 14), (CHR ''F'', 15)] c"

fun spec_digits :: "nat \<Rightarrow> nat \<Rightarrow> string \<Rightarrow> nat option" where
  "spec_digits b acc [] = Some acc"
| "spec_digits b acc (c # cs) =
     (case spec_digit c of
        None \<Rightarrow> None
      | Some d \<Rightarrow> if d < b then spec_digits b (acc * b + d) cs else None)"

definition spec_unsigned :: "string \<Rightarrow> nat option" where
  "spec_unsigned s =
     (if take 2 s = ''0x'' \<or> take 2 s = ''0X'' then
        (if drop 2 s = [] then None else spec_digits 16 0 (drop 2 s))
      else if s = [] then None
      else spec_digits 10 0 s)"

definition spec_numeral :: "string \<Rightarrow> int option" where
  "spec_numeral tok =
     (case tok of
        [] \<Rightarrow> None
      | c # r \<Rightarrow>
          if c = CHR ''-'' then map_option (\<lambda>v. - int v) (spec_unsigned r)
          else if c = CHR ''+'' then map_option int (spec_unsigned r)
          else map_option int (spec_unsigned tok))"

text \<open>A numeral of more than one character that, after its sign, starts with \<open>0\<close> and does
  not go on with \<open>x\<close> or \<open>X\<close>: a decimal numeral with a leading zero.\<close>

definition leading_zero :: "string \<Rightarrow> bool" where
  "leading_zero tok =
     (let s = (case tok of
                 [] \<Rightarrow> []
               | c # r \<Rightarrow> if c = CHR ''-'' \<or> c = CHR ''+'' then r else tok)
      in length s \<ge> 2 \<and> hd s = CHR ''0'' \<and> s ! 1 \<noteq> CHR ''x'' \<and> s ! 1 \<noteq> CHR ''X'')"

section \<open>The scan of the memory profile\<close>

text \<open>Lines 346 to 361 of \<open>main.go\<close>, the same text as lines 168 to 183 of the older
  generation: the loop over the lines of the profile, which keeps the two counters
  \<open>allocs\<close> and \<open>bytes\<close>, both \<open>int64\<close> and zero at the start.\<close>

record counters =
  allocs :: int
  bytes :: int

definition scan_line :: "counters \<Rightarrow> string \<Rightarrow> counters" where
  "scan_line st line =
     (let f = Fields line in
      if length f < 4 \<or> f ! 0 \<noteq> ''#'' \<or> f ! 2 \<noteq> ''='' then st
      else (case ParseInt (f ! 3) of
              (val, Some err) \<Rightarrow> st
            | (val, None) \<Rightarrow>
                if f ! 1 = ''TotalAlloc'' then st\<lparr>bytes := val\<rparr>
                else if f ! 1 = ''Mallocs'' then st\<lparr>allocs := val\<rparr>
                else st))"

fun scan_lines :: "counters \<Rightarrow> string list \<Rightarrow> counters" where
  "scan_lines st [] = st"
| "scan_lines st (line # rest) = scan_lines (scan_line st line) rest"

definition scan_memprof :: "string \<Rightarrow> counters" where
  "scan_memprof out = scan_lines \<lparr>allocs = 0, bytes = 0\<rparr> (Split out newline)"

text \<open>The value a line stores under the counter name \<open>nm\<close>, if it is a counter line of that
  name whose fourth token parses.\<close>

definition counter_value :: "string \<Rightarrow> string \<Rightarrow> int option" where
  "counter_value nm line =
     (let f = Fields line in
      if length f \<ge> 4 \<and> f ! 0 = ''#'' \<and> f ! 2 = ''='' \<and> f ! 1 = nm \<and> snd (ParseInt (f ! 3)) = None
      then Some (fst (ParseInt (f ! 3))) else None)"

section \<open>Formatted output\<close>

text \<open>The operands the sources pass to \<open>Printf\<close> are strings and \<open>int64\<close> values; an
  \<open>error\<close> is its message, a string. Only the verbs that occur in the sources are
  modelled: \<open>%s\<close>, \<open>%d\<close> and \<open>%v\<close>, without flags or widths. A verb that does not fit its
  operand, a verb without operand and a surplus operand print as Go's \<open>fmt\<close> reports them.\<close>

datatype arg = S string | I int

fun format_verb :: "char \<Rightarrow> arg \<Rightarrow> string" where
  "format_verb v (S s) =
     (if v = CHR ''s'' \<or> v = CHR ''v'' then s else ''%!'' @ [v] @ ''(string='' @ s @ '')'')"
| "format_verb v (I i) =
     (if v = CHR ''d'' \<or> v = CHR ''v'' then itoa i else ''%!'' @ [v] @ ''(int64='' @ itoa i @ '')'')"

fun extra_args :: "arg list \<Rightarrow> string" where
  "extra_args [] = []"
| "extra_args [S s] = ''string='' @ s"
| "extra_args [I i] = ''int64='' @ itoa i"
| "extra_args (S s # a # as) = ''string='' @ s @ '', '' @ extra_args (a # as)"
| "extra_args (I i # a # as) = ''int64='' @ itoa i @ '', '' @ extra_args (a # as)"

fun Sprintf :: "string \<Rightarrow> arg list \<Rightarrow> string" where
  "Sprintf [] args = (if args = [] then [] else ''%!(EXTRA '' @ extra_args args @ '')'')"
| "Sprintf [c] args =
     (if c = CHR ''%'' then ''%!(NOVERB)'' @ Sprintf [] args else c # Sprintf [] args)"
| "Sprintf (c # v # fs) args =
     (if c = CHR ''%'' then
        (if v = CHR ''%'' then CHR ''%'' # Sprintf fs args
         else (case args of
                 [] \<Rightarrow> ''%!'' @ [v] @ ''(MISSING)'' @ Sprintf fs []
               | a # as \<Rightarrow> format_verb v a @ Sprintf fs as))
      else c # Sprintf (v # fs) args)"

text \<open>The record line in the words of the specification: one line
  \<open><name> 1 <value1> <unit1> <value2> <unit2> ...\<close> for a name and an ordered sequence of
  (value, unit) pairs. The sources have no function of this kind; they print each record
  with a format string of its own, and what they print is compared with this line.\<close>

definition spec_record_line :: "string \<Rightarrow> (string \<times> string) list \<Rightarrow> string" where
  "spec_record_line nm pairs = nm @ '' 1'' @ concat (map (\<lambda>(v, u). '' '' @ v @ '' '' @ u) pairs)"

section \<open>The process and the world around it\<close>

text \<open>What the harness changes: the text written to standard output, the text written to
  standard error (log lines and the output of children that inherit it), the files, the
  external processes started, and the four flags that \<open>runBuild\<close> of \<open>main.go\<close> overwrites
  when the compiler is the old \<open>6g\<close>.\<close>

record command =
  cmd_name :: string
  cmd_args :: "string list"
  cmd_dir :: string

record world =
  stdout :: "string list"
  stderr :: "string list"
  files :: "string \<rightharpoonup> string"
  started :: "command list"
  flagAlloc :: bool
  flagCpuprofile :: string
  flagMemprofile :: string
  flagMemprofilerate :: int

text \<open>What a finished process leaves: its error if it could not start or exited with a
  status other than zero, its combined output, the time between the two readings of the
  clock around it and its user CPU time, both in nanoseconds, and the files after it.\<close>

record finished =
  run_err :: "string option"
  run_output :: string
  run_wall :: int
  run_user :: int
  run_files :: "string \<rightharpoonup> string"

text \<open>What the harness cannot decide: how a process ends, what \<open>build.Import\<close> finds (the
  Go files and the directory of a package, or an error), which file a path names, which
  paths cannot be written or removed, \<open>runtime.GOROOT\<close> and \<open>filepath.Join\<close>. The files of a
  world are kept under the names \<open>resolve\<close> gives: a path may be spelt in many ways
  (relative or absolute, with \<open>.\<close> and \<open>..\<close>, through a link), and the operating
  system takes all spellings to the one file.\<close>

record system =
  exec :: "world \<Rightarrow> command \<Rightarrow> finished"
  build_Import :: "world \<Rightarrow> string \<Rightarrow> string + (string list \<times> string)"
  resolve :: "string \<Rightarrow> string"
  write_fails :: "string \<Rightarrow> string option"
  remove_fails :: "string \<Rightarrow> bool"
  GOROOT :: string
  Join :: "string \<Rightarrow> string \<Rightarrow> string"

text \<open>What \<open>main\<close> fixes before the loop and nothing changes afterwards: the flags that are
  only read, the compiled \<open>-run\<close> expression (\<open>None\<close> for the nil pointer, else the
  predicate \<open>MatchString\<close>), the path of the compiler and whether it is \<open>6g\<close>.\<close>

record settings =
  flagToolexec :: string
  flagCompilerFlags :: string
  flagShort :: bool
  flagCount :: int
  runRE :: "(string \<Rightarrow> bool) option"
  compiler :: string
  is6g :: bool

datatype outcome = Returned | Exited nat

definition fmt_Printf :: "string \<Rightarrow> arg list \<Rightarrow> world \<Rightarrow> world" where
  "fmt_Printf format args w = w\<lparr>stdout := stdout w @ [Sprintf format args]\<rparr>"

text \<open>Package \<open>log\<close> with the prefix \<open>compilebench: \<close> and no flags, as \<open>main\<close> sets it: one
  line on standard error, ended by a line feed if the message has none.\<close>

definition log_Print :: "string \<Rightarrow> world \<Rightarrow> world" where
  "log_Print msg w =
     w\<lparr>stderr := stderr w @
        [''compilebench: '' @ msg @ (if msg = [] \<or> last msg \<noteq> newline then [newline] else [])]\<rparr>"

definition log_Printf :: "string \<Rightarrow> arg list \<Rightarrow> world \<Rightarrow> world" where
  "log_Printf format args w = log_Print (Sprintf format args) w"

text \<open>\<open>cmd.Run\<close> of a command whose output goes to the standard error of the harness, and
  \<open>cmd.CombinedOutput\<close>, which captures it.\<close>

definition Run :: "system \<Rightarrow> command \<Rightarrow> world \<Rightarrow> finished \<times> world" where
  "Run sys c w =
     (let r = exec sys w c
      in (r, w\<lparr>stderr := stderr w @ [run_output r], files := run_files r,
                started := started w @ [c]\<rparr>))"

definition CombinedOutput :: "system \<Rightarrow> command \<Rightarrow> world \<Rightarrow> finished \<times> world" where
  "CombinedOutput sys c w =
     (let r = exec sys w c
      in (r, w\<lparr>files := run_files r, started := started w @ [c]\<rparr>))"

text \<open>Files, each reached through \<open>resolve\<close>. A file that is not there is the one read
  failure modelled; the size of a file is the number of its bytes.\<close>

definition ReadFile :: "system \<Rightarrow> string \<Rightarrow> world \<Rightarrow> string \<times> string option" where
  "ReadFile sys p w =
     (case files w (resolve sys p) of
        Some d \<Rightarrow> (d, None)
      | None \<Rightarrow> ([], Some (''open '' @ p @ '': no such file or directory'')))"

definition Stat :: "system \<Rightarrow> string \<Rightarrow> world \<Rightarrow> int \<times> string option" where
  "Stat sys p w =
     (case files w (resolve sys p) of
        Some d \<Rightarrow> (int (length d), None)
      | None \<Rightarrow> (0, Some (''stat '' @ p @ '': no such file or directory'')))"

definition WriteFile :: "system \<Rightarrow> string \<Rightarrow> string \<Rightarrow> world \<Rightarrow> string option \<times> world" where
  "WriteFile sys p d w =
     (case write_fails sys p of
        Some e \<Rightarrow> (Some e, w)
      | None \<Rightarrow> (None, w\<lparr>files := (files w)(resolve sys p \<mapsto> d)\<rparr>))"

text \<open>\<open>os.Remove\<close>; every caller drops its error. The paths the harness removes are the
  names under which the toolchain has just written its output, taken not to be links, so
  that removing the path removes the file it names.\<close>

definition Remove :: "system \<Rightarrow> string \<Rightarrow> world \<Rightarrow> world" where
  "Remove sys p w =
     (if remove_fails sys p then w else w\<lparr>files := (files w)(resolve sys p := None)\<rparr>)"

section \<open>\<open>main.go\<close>\<close>

record test =
  test_name :: string
  test_dir :: string
  test_long :: bool

definition tests :: "test list" where
  "tests =
     [\<lparr>test_name = ''BenchmarkTemplate'', test_dir = ''html/template'', test_long = False\<rparr>,
      \<lparr>test_name = ''BenchmarkUnicode'', test_dir = ''unicode'', test_long = False\<rparr>,
      \<lparr>test_name = ''BenchmarkGoTypes'', test_dir = ''go/types'', test_long = False\<rparr>,
      \<lparr>test_name = ''BenchmarkCompiler'', test_dir = ''cmd/compile/internal/gc'', test_long = False\<rparr>,
      \<lparr>test_name = ''BenchmarkStdCmd'', test_dir = [], test_long = True\<rparr>,
      \<lparr>test_name = ''BenchmarkHelloSize'', test_dir = [], test_long = False\<rparr>,
      \<lparr>test_name = ''BenchmarkCmdGoSize'', test_dir = [], test_long = True\<rparr>]"

subsection \<open>\<open>runCmd\<close> and \<open>runStdCmd\<close>\<close>

definition runCmd :: "system \<Rightarrow> string \<Rightarrow> command \<Rightarrow> world \<Rightarrow> world" where
  "runCmd sys nm cmd w =
     (let (r, w1) = CombinedOutput sys cmd w
      in (case run_err r of
            Some err \<Rightarrow> log_Printf ''%v: %v\<newline>%s'' [S nm, S err, S (run_output r)] w1
          | None \<Rightarrow> fmt_Printf ''%s 1 %d ns/op\<newline>'' [S nm, I (run_wall r)] w1))"

definition stdcmd_command :: "system \<Rightarrow> settings \<Rightarrow> command" where
  "stdcmd_command sys cfg =
     (let args = [''build'', ''-a''];
          args = (if flagToolexec cfg \<noteq> [] then args @ [''-toolexec'', flagToolexec cfg] else args);
          args = args @ [''std'', ''cmd'']
      in \<lparr>cmd_name = ''go'', cmd_args = args, cmd_dir = Join sys (GOROOT sys) ''src''\<rparr>)"

definition runStdCmd :: "system \<Rightarrow> settings \<Rightarrow> world \<Rightarrow> world" where
  "runStdCmd sys cfg w = runCmd sys ''BenchmarkStdCmd'' (stdcmd_command sys cfg) w"

subsection \<open>\<open>runSize\<close>\<close>

text \<open>Lines 266 to 276: what \<open>runSize\<close> does with the output of the size tool, given the
  name of the benchmark and the size of the executable from \<open>os.Stat\<close>.\<close>

definition size_report :: "string \<Rightarrow> int \<Rightarrow> string \<Rightarrow> world \<Rightarrow> world" where
  "size_report nm info_Size out w =
     (let lines = Split out newline
      in if length lines < 2 then log_Printf ''not enough output from size: %s'' [S out] w
         else
           let f = Fields (lines ! 1)
           in if HasPrefix (lines ! 0) ''__TEXT'' \<and> length f \<ge> 2 then
                fmt_Printf ''%s 1 %s text-bytes %s data-bytes %v exe-bytes\<newline>''
                  [S nm, S (f ! 0), S (f ! 1), I info_Size] w
              else if Contains (lines ! 0) ''bss'' \<and> length f \<ge> 3 then
                fmt_Printf ''%s 1 %s text-bytes %s data-bytes %s bss-bytes %v exe-bytes\<newline>''
                  [S nm, S (f ! 0), S (f ! 1), S (f ! 2), I info_Size] w
              else w)"

text \<open>Lines 256 to 276, the part of \<open>runSize\<close> that the deferred removal follows.\<close>

definition size_measure :: "system \<Rightarrow> string \<Rightarrow> world \<Rightarrow> world" where
  "size_measure sys nm w =
     (case Stat sys ''_compilebenchout_'' w of
        (info_Size, Some err) \<Rightarrow> log_Print err w
      | (info_Size, None) \<Rightarrow>
          let (r, w1) = CombinedOutput sys
                 \<lparr>cmd_name = ''size'', cmd_args = [''_compilebenchout_''], cmd_dir = []\<rparr> w
          in (case run_err r of
                Some err \<Rightarrow> log_Printf ''size: %v\<newline>%s'' [S err, S (run_output r)] w1
              | None \<Rightarrow> size_report nm info_Size (run_output r) w1))"

definition size_build_command :: "settings \<Rightarrow> string \<Rightarrow> command" where
  "size_build_command cfg path =
     (let args = [''build'', ''-o'', ''_compilebenchout_''];
          args = (if flagToolexec cfg \<noteq> [] then args @ [''-toolexec'', flagToolexec cfg] else args);
          args = args @ [path]
      in \<lparr>cmd_name = ''go'', cmd_args = args, cmd_dir = []\<rparr>)"

definition runSize :: "system \<Rightarrow> settings \<Rightarrow> string \<Rightarrow> string \<Rightarrow> world \<Rightarrow> world" where
  "runSize sys cfg nm path w =
     (let (r, w1) = Run sys (size_build_command cfg path) w
      in (case run_err r of
            Some err \<Rightarrow> log_Print err w1
          | None \<Rightarrow> Remove sys ''_compilebenchout_'' (size_measure sys nm w1)))"

subsection \<open>\<open>runBuild\<close>\<close>

text \<open>Lines 310 to 315: with \<open>6g\<close> the profiling flags are switched off, for good.\<close>

definition clear_flags_6g :: "settings \<Rightarrow> world \<Rightarrow> world" where
  "clear_flags_6g cfg w =
     (if is6g cfg
      then w\<lparr>flagMemprofilerate := - 1, flagAlloc := False, flagCpuprofile := [],
              flagMemprofile := []\<rparr>
      else w)"

text \<open>Lines 309 and 316 to 330: the compiler's command line.\<close>

definition compile_command :: "settings \<Rightarrow> world \<Rightarrow> string list \<Rightarrow> string \<Rightarrow> command" where
  "compile_command cfg w gofiles pkgdir =
     (let args = [''-o'', ''_compilebench_.o''];
          args = (if flagMemprofilerate w \<ge> 0
                  then args @ [''-memprofilerate'', itoa (flagMemprofilerate w)] else args);
          args = args @ Fields (flagCompilerFlags cfg);
          args = (if flagAlloc w \<or> flagCpuprofile w \<noteq> [] \<or> flagMemprofile w \<noteq> [] then
                    (let args = (if flagAlloc w \<or> flagMemprofile w \<noteq> []
                                 then args @ [''-memprofile'', ''_compilebench_.memprof'']
                                 else args)
                     in if flagCpuprofile w \<noteq> []
                        then args @ [''-cpuprofile'', ''_compilebench_.cpuprof''] else args)
                  else args);
          args = args @ gofiles
      in \<lparr>cmd_name = compiler cfg, cmd_args = args, cmd_dir = pkgdir\<rparr>)"

text \<open>Lines 340 to 369: the counters, read from the memory profile when \<open>-alloc\<close> or
  \<open>-memprofile\<close> is set, the copy of the profile and its removal.\<close>

definition read_memprofile :: "system \<Rightarrow> string \<Rightarrow> world \<Rightarrow> counters \<times> world" where
  "read_memprofile sys pkgdir w =
     (if flagAlloc w \<or> flagMemprofile w \<noteq> [] then
        (let (out, err) = ReadFile sys (pkgdir @ ''/_compilebench_.memprof'') w;
             w1 = (if err \<noteq> None
                   then log_Print ''cannot find memory profile after compilation'' w else w);
             cnt = scan_memprof out;
             w2 = (if flagMemprofile w1 \<noteq> [] then
                     (case WriteFile sys (flagMemprofile w1) out w1 of
                        (Some e, w') \<Rightarrow> log_Print e w'
                      | (None, w') \<Rightarrow> w')
                   else w1)
         in (cnt, Remove sys (pkgdir @ ''/_compilebench_.memprof'') w2))
      else (\<lparr>allocs = 0, bytes = 0\<rparr>, w))"

text \<open>Lines 371 to 380: the copy of the CPU profile.\<close>

definition copy_cpuprofile :: "system \<Rightarrow> string \<Rightarrow> world \<Rightarrow> world" where
  "copy_cpuprofile sys pkgdir w =
     (if flagCpuprofile w \<noteq> [] then
        (let (out, err) = ReadFile sys (pkgdir @ ''/_compilebench_.cpuprof'') w;
             w1 = (case err of Some e \<Rightarrow> log_Print e w | None \<Rightarrow> w);
             w2 = (case WriteFile sys (flagCpuprofile w1) out w1 of
                     (Some e, w') \<Rightarrow> log_Print e w'
                   | (None, w') \<Rightarrow> w')
         in Remove sys (pkgdir @ ''/_compilebench_.cpuprof'') w2)
      else w)"

text \<open>Lines 309 to 391: one compilation, timed, of the files \<open>gofiles\<close> in \<open>pkgdir\<close>.\<close>

definition compile :: "system \<Rightarrow> settings \<Rightarrow> string \<Rightarrow> string list \<Rightarrow> string \<Rightarrow> world \<Rightarrow> world" where
  "compile sys cfg nm gofiles pkgdir w =
     (let w0 = clear_flags_6g cfg w;
          (r, w1) = Run sys (compile_command cfg w0 gofiles pkgdir) w0
      in (case run_err r of
            Some err \<Rightarrow> log_Printf ''%v: %v'' [S nm, S err] w1
          | None \<Rightarrow>
              let (cnt, w2) = read_memprofile sys pkgdir w1;
                  w3 = copy_cpuprofile sys pkgdir w2;
                  wallns = run_wall r;
                  userns = run_user r;
                  w4 = (if flagAlloc w3
                        then fmt_Printf ''%s 1 %d ns/op %d user-ns/op %d B/op %d allocs/op\<newline>''
                               [S nm, I wallns, I userns, I (bytes cnt), I (allocs cnt)] w3
                        else fmt_Printf ''%s 1 %d ns/op %d user-ns/op\<newline>''
                               [S nm, I wallns, I userns] w3)
              in Remove sys (pkgdir @ ''/_compilebench_.o'') w4))"

definition runBuild :: "system \<Rightarrow> settings \<Rightarrow> string \<Rightarrow> string \<Rightarrow> string \<Rightarrow> world \<Rightarrow> outcome \<times> world" where
  "runBuild sys cfg nm dir file w =
     (if nm = ''BenchmarkStdCmd'' then (Returned, runStdCmd sys cfg w)
      else if nm = ''BenchmarkCmdGoSize'' then
        (Returned, runSize sys cfg ''BenchmarkCmdGoSize'' ''cmd/go'' w)
      else if nm = ''BenchmarkHelloSize'' then
        (Returned, runSize sys cfg ''BenchmarkHelloSize'' (Join sys (GOROOT sys) ''test/helloworld.go'') w)
      else if file \<noteq> [] then (Returned, compile sys cfg nm [file] dir w)
      else if dir \<noteq> [] then
        (case build_Import sys w dir of
           Inl err \<Rightarrow> (Returned, log_Print err w)
         | Inr (gofiles, pkgdir) \<Rightarrow> (Returned, compile sys cfg nm gofiles pkgdir w))
      else (Exited 1, log_Print ''internal error: dir or file must be set'' w))"

subsection \<open>The loops of \<open>main\<close>, lines 166 to 175\<close>

fun run_tests :: "system \<Rightarrow> settings \<Rightarrow> test list \<Rightarrow> world \<Rightarrow> outcome \<times> world" where
  "run_tests sys cfg [] w = (Returned, w)"
| "run_tests sys cfg (tt # rest) w =
     (if test_long tt \<and> flagShort cfg then run_tests sys cfg rest w
      else if (case runRE cfg of None \<Rightarrow> True | Some re \<Rightarrow> re (test_name tt)) then
        (case runBuild sys cfg (test_name tt) (test_dir tt) [] w of
           (Exited code, w') \<Rightarrow> (Exited code, w')
         | (Returned, w') \<Rightarrow> run_tests sys cfg rest w')
      else run_tests sys cfg rest w)"

fun run_count :: "system \<Rightarrow> settings \<Rightarrow> nat \<Rightarrow> world \<Rightarrow> outcome \<times> world" where
  "run_count sys cfg 0 w = (Returned, w)"
| "run_count sys cfg (Suc k) w =
     (case run_tests sys cfg tests w of
        (Exited code, w') \<Rightarrow> (Exited code, w')
      | (Returned, w') \<Rightarrow> run_count sys cfg k w')"

definition main_loop :: "system \<Rightarrow> settings \<Rightarrow> world \<Rightarrow> outcome \<times> world" where
  "main_loop sys cfg w = run_count sys cfg (nat (flagCount cfg)) w"

section \<open>The older generation of the tool\<close>

text \<open>The second source file is an earlier \<open>main.go\<close>: three benchmarks, each compiled
  twice, once for the time and once for the memory profile, and \<open>log.Fatal\<close> wherever the
  later file logs and goes on. Its \<open>-compile\<close> flag ends up in the variable \<open>compiler\<close>; its
  other flags are a subset of the later ones. Its \<open>runCmd\<close> is called from nowhere and is
  left out.\<close>

definition tests0 :: "(string \<times> string) list" where
  "tests0 =
     [(''BenchmarkTemplate'', ''html/template''),
      (''BenchmarkGoTypes'', ''go/types''),
      (''BenchmarkCompiler'', ''cmd/compile/internal/gc'')]"

text \<open>Lines 193 to 202 of the older file.\<close>

definition copy_cpuprofile0 :: "system \<Rightarrow> string \<Rightarrow> world \<Rightarrow> outcome \<times> world" where
  "copy_cpuprofile0 sys pkgdir w =
     (if flagCpuprofile w \<noteq> [] then
        (case ReadFile sys (pkgdir @ ''/_compilebench_.cpuprof'') w of
           (out, Some e) \<Rightarrow> (Exited 1, log_Print e w)
         | (out, None) \<Rightarrow>
             (case WriteFile sys (flagCpuprofile w) out w of
                (Some e, w') \<Rightarrow> (Exited 1, log_Print e w')
              | (None, w') \<Rightarrow> (Returned, Remove sys (pkgdir @ ''/_compilebench_.cpuprof'') w')))
      else (Returned, w))"

text \<open>Lines 167 to 205 of the older file: the scan, the record, the copies, the removals.\<close>

definition report0 :: "system \<Rightarrow> string \<Rightarrow> string \<Rightarrow> int \<Rightarrow> string \<Rightarrow> world \<Rightarrow> outcome \<times> world" where
  "report0 sys nm pkgdir wallns out w =
     (let cnt = scan_memprof out;
          w1 = fmt_Printf ''Benchmark%s 1 %d ns/op %d B/op %d allocs/op\<newline>''
                 [S nm, I wallns, I (bytes cnt), I (allocs cnt)] w
      in (case (if flagMemprofile w1 \<noteq> [] then WriteFile sys (flagMemprofile w1) out w1
                else (None, w1)) of
            (Some e, w2) \<Rightarrow> (Exited 1, log_Print e w2)
          | (None, w2) \<Rightarrow>
              (case copy_cpuprofile0 sys pkgdir w2 of
                 (Exited code, w3) \<Rightarrow> (Exited code, w3)
               | (Returned, w3) \<Rightarrow>
                   (Returned,
                    Remove sys (pkgdir @ ''/_compilebench_.memprof'')
                      (Remove sys (pkgdir @ ''/_compilebench_.o'') w3)))))"

definition timing_command0 :: "settings \<Rightarrow> string list \<Rightarrow> string \<Rightarrow> command" where
  "timing_command0 cfg gofiles pkgdir =
     (let args = [''-o'', ''_compilebench_.o''];
          args = args @ Fields (flagCompilerFlags cfg);
          args = args @ gofiles
      in \<lparr>cmd_name = compiler cfg, cmd_args = args, cmd_dir = pkgdir\<rparr>)"

definition profile_command0 :: "settings \<Rightarrow> world \<Rightarrow> string list \<Rightarrow> string \<Rightarrow> command" where
  "profile_command0 cfg w gofiles pkgdir =
     (let args = [''-o'', ''_compilebench_.o''];
          args = args @ Fields (flagCompilerFlags cfg);
          args = args @ [''-memprofile'', ''_compilebench_.memprof'', ''-memprofilerate'',
                         itoa (64 * 1024)];
          args = (if flagCpuprofile w \<noteq> []
                  then args @ [''-cpuprofile'', ''_compilebench_.cpuprof''] else args);
          args = args @ gofiles
      in \<lparr>cmd_name = compiler cfg, cmd_args = args, cmd_dir = pkgdir\<rparr>)"

definition runBuild0 :: "system \<Rightarrow> settings \<Rightarrow> string \<Rightarrow> string \<Rightarrow> world \<Rightarrow> outcome \<times> world" where
  "runBuild0 sys cfg nm dir w =
     (case build_Import sys w dir of
        Inl err \<Rightarrow> (Exited 1, log_Print err w)
      | Inr (gofiles, pkgdir) \<Rightarrow>
          let (r, w1) = CombinedOutput sys (timing_command0 cfg gofiles pkgdir) w
          in (case run_err r of
                Some err \<Rightarrow>
                  (Exited 1, log_Printf ''%v: %v\<newline>%s'' [S nm, S err, S (run_output r)] w1)
              | None \<Rightarrow>
                  let (r2, w2) = CombinedOutput sys (profile_command0 cfg w1 gofiles pkgdir) w1
                  in (case run_err r2 of
                        Some err \<Rightarrow>
                          (Exited 1,
                           log_Printf ''%v: %v\<newline>%s'' [S nm, S err, S (run_output r2)] w2)
                      | None \<Rightarrow>
                          (case ReadFile sys (pkgdir @ ''/_compilebench_.memprof'') w2 of
                             (out, Some err) \<Rightarrow>
                               (Exited 1,
                                log_Print ''cannot find memory profile after compilation'' w2)
                           | (out, None) \<Rightarrow> report0 sys nm pkgdir (run_wall r) out w2))))"

fun run_tests0 :: "system \<Rightarrow> settings \<Rightarrow> (string \<times> string) list \<Rightarrow> world \<Rightarrow> outcome \<times> world" where
  "run_tests0 sys cfg [] w = (Returned, w)"
| "run_tests0 sys cfg ((nm, dir) # rest) w =
     (if (case runRE cfg of None \<Rightarrow> True | Some re \<Rightarrow> re nm) then
        (case runBuild0 sys cfg nm dir w of
           (Exited code, w') \<Rightarrow> (Exited code, w')
         | (Returned, w') \<Rightarrow> run_tests0 sys cfg rest w')
      else run_tests0 sys cfg rest w)"

fun run_count0 :: "system \<Rightarrow> settings \<Rightarrow> nat \<Rightarrow> world \<Rightarrow> outcome \<times> world" where
  "run_count0 sys cfg 0 w = (Returned, w)"
| "run_count0 sys cfg (Suc k) w =
     (case run_tests0 sys cfg tests0 w of
        (Exited code, w') \<Rightarrow> (Exited code, w')
      | (Returned, w') \<Rightarrow> run_count0 sys cfg k w')"

section \<open>A first state and example systems\<close>

text \<open>The world when \<open>main\<close> reaches its loop with the flags at their defaults, and settings
  with the defaults of the other flags.\<close>

definition initial_world :: world where
  "initial_world =
     \<lparr>stdout = [], stderr = [], files = Map.empty, started = [], flagAlloc = False,
      flagCpuprofile = [], flagMemprofile = [], flagMemprofilerate = - 1\<rparr>"

definition default_settings :: settings where
  "default_settings =
     \<lparr>flagToolexec = [], flagCompilerFlags = [], flagShort = False, flagCount = 1, runRE = None,
      compiler = ''/go/pkg/tool/compile'', is6g = False\<rparr>"

text \<open>A system where every process fails, and one where every process succeeds, leaves an
  object file, an executable and the two profiles behind, and the size tool prints three
  columns. In both every package is found, with one file, every path names the file of
  its own spelling, and every write and removal succeeds.\<close>

definition failing_system :: system where
  "failing_system =
     \<lparr>exec = (\<lambda>w c. \<lparr>run_err = Some ''exit status 2'', run_output = ''syntax error'',
                       run_wall = 5, run_user = 3, run_files = files w\<rparr>),
      build_Import = (\<lambda>w dir. Inr ([''a.go''], ''/go/src/'' @ dir)),
      resolve = (\<lambda>p. p),
      write_fails = (\<lambda>p. None),
      remove_fails = (\<lambda>p. False),
      GOROOT = ''/go'',
      Join = (\<lambda>a b. a @ ''/'' @ b)\<rparr>"

definition working_system :: system where
  "working_system =
     \<lparr>exec = (\<lambda>w c.
         \<lparr>run_err = None,
          run_output = (if cmd_name c = ''size''
                        then ''text data bss dec hex filename\<newline>725317 10112 109888 845317 ce605 x\<newline>''
                        else []),
          run_wall = 1234, run_user = 1000,
          run_files = (files w)
            (cmd_dir c @ ''/_compilebench_.o'' \<mapsto> ''object'',
             cmd_dir c @ ''/_compilebench_.memprof'' \<mapsto> ''# TotalAlloc = 56\<newline># Mallocs = 7\<newline>'',
             cmd_dir c @ ''/_compilebench_.cpuprof'' \<mapsto> ''samples'',
             ''_compilebenchout_'' \<mapsto> ''executable'')\<rparr>),
      build_Import = (\<lambda>w dir. Inr ([''a.go''], ''/go/src/'' @ dir)),
      resolve = (\<lambda>p. p),
      write_fails = (\<lambda>p. None),
      remove_fails = (\<lambda>p. False),
      GOROOT = ''/go'',
      Join = (\<lambda>a b. a @ ''/'' @ b)\<rparr>"

text \<open>The system where every process succeeds without leaving a memory profile, and the one
  where every process succeeds and no file can be written.\<close>

definition profileless_system :: system where
  "profileless_system =
     working_system
       \<lparr>exec := (\<lambda>w c.
          \<lparr>run_err = None, run_output = [], run_wall = 1234, run_user = 1000,
           run_files = (files w)(cmd_dir c @ ''/_compilebench_.o'' \<mapsto> ''object'')\<rparr>)\<rparr>"

definition unwritable_system :: system where
  "unwritable_system = working_system\<lparr>write_fails := (\<lambda>p. Some ''permission denied'')\<rparr>"

text \<open>The system where every process succeeds and \<open>/go/src/unicode/./_compilebench_.memprof\<close>
  is one more spelling of \<open>/go/src/unicode/_compilebench_.memprof\<close>.\<close>

definition respelling_system :: system where
  "respelling_system =
     working_system
       \<lparr>resolve := (\<lambda>p. if p = ''/go/src/unicode/./_compilebench_.memprof''
                         then ''/go/src/unicode/_compilebench_.memprof'' else p)\<rparr>"

section \<open>Evaluation\<close>

text \<open>The definitions to unfold when a function of the library is run on a literal.\<close>

lemmas strings_eval = Fields_def space_width_def asciiSpace_def newline_def HasPrefix_def

lemmas ParseInt_eval =
  ParseInt_def ParseUint_def digit_of_def lower_def maxUint64_def int64_def Let_def

lemma char_eq_char_of: "c = char_of n \<longleftrightarrow> take_bit 8 n = of_char c"
  using char_of_eq_iff [of n c] by auto

lemmas char_eval = char_of_eq_iff char_eq_char_of

lemmas numeral_eval = itoa_def dec_digits.simps

lemmas spec_eval = spec_numeral_def spec_unsigned_def spec_digit_def leading_zero_def

lemmas world_eval =
  Run_def CombinedOutput_def ReadFile_def WriteFile_def Remove_def Stat_def log_Print_def
  log_Printf_def fmt_Printf_def initial_world_def default_settings_def Let_def case_prod_beta

lemmas older_eval =
  runBuild0_def timing_command0_def profile_command0_def strings_eval CombinedOutput_def
  ReadFile_def log_Print_def log_Printf_def initial_world_def default_settings_def Let_def
  case_prod_beta numeral_eval char_eval

section \<open>Parsing what was printed\<close>

text \<open>\<open>ParseInt\<close> reads a numeral of the specification as the specification does, when it
  names an \<open>int64\<close> value and has no leading zero.\<close>

lemma spec_digit_digit_of:
  assumes "spec_digit c = Some d"
  shows "digit_of c = Some d" and "c \<noteq> CHR ''_''" and "d < 16"
  using assms
  by (auto simp: spec_digit_def digit_of_def lower_def char_eval split: if_splits)

lemma spec_digits_mono: "spec_digits b acc ds = Some v \<Longrightarrow> 0 < b \<Longrightarrow> acc \<le> v"
proof (induction ds arbitrary: acc)
  case Nil
  then show ?case by simp
next
  case (Cons c cs)
  then obtain d where d: "spec_digit c = Some d" "d < b" "spec_digits b (acc * b + d) cs = Some v"
    by (auto split: option.splits if_splits)
  with Cons have "acc * b + d \<le> v"
    by simp
  moreover have "acc \<le> acc * b"
    using \<open>0 < b\<close> by (cases b) simp_all
  ultimately show ?case
    by linarith
qed

lemma ParseUint_loop_step:
  assumes "digit_of c = Some d" and "c \<noteq> CHR ''_''" and "d < b" and "0 < b"
    and "n * b + d < 2 ^ 64"
  shows "ParseUint_loop b n u (c # cs) = ParseUint_loop b (n * b + d) u cs"
proof -
  from assms have "n * b \<le> maxUint64"
    by (simp add: maxUint64_def)
  then have "n \<le> maxUint64 div b"
    using \<open>0 < b\<close> by (simp add: less_eq_div_iff_mult_less_eq)
  then have "\<not> n \<ge> maxUint64 div b + 1"
    by simp
  then show ?thesis
    using assms by (simp add: maxUint64_def)
qed

lemma ParseUint_loop_spec:
  assumes "spec_digits b acc ds = Some v" and "0 < b" and "v < 2 ^ 64"
  shows "ParseUint_loop b acc False ds = ((v, False), None)"
  using assms
proof (induction ds arbitrary: acc)
  case Nil
  then show ?case by simp
next
  case (Cons c cs)
  then obtain d where d: "spec_digit c = Some d" "d < b" "spec_digits b (acc * b + d) cs = Some v"
    by (auto split: option.splits if_splits)
  then have "acc * b + d \<le> v"
    using Cons.prems(2) by (simp add: spec_digits_mono)
  with Cons.prems(3) have "acc * b + d < 2 ^ 64"
    by simp
  then have "ParseUint_loop b acc False (c # cs) = ParseUint_loop b (acc * b + d) False cs"
    by (rule ParseUint_loop_step [OF spec_digit_digit_of(1,2) [OF d(1)] d(2) Cons.prems(2)])
  with Cons.IH [OF d(3) Cons.prems(2,3)] show ?case
    by simp
qed

lemma lower_x: "lower (CHR ''x'') = CHR ''x''" "lower (CHR ''X'') = CHR ''x''"
  by (simp_all add: lower_def char_eval)

lemma ParseUint_spec:
  assumes "spec_unsigned s = Some v" and "v < 2 ^ 64"
    and "\<not> (length s \<ge> 2 \<and> hd s = CHR ''0'' \<and> s ! 1 \<noteq> CHR ''x'' \<and> s ! 1 \<noteq> CHR ''X'')"
  shows "ParseUint s = (v, None)"
proof (cases "take 2 s = ''0x'' \<or> take 2 s = ''0X''")
  case True
  then obtain x ds where s: "s = CHR ''0'' # x # ds" and x: "x = CHR ''x'' \<or> x = CHR ''X''"
    by (cases s; cases "tl s") auto
  with assms(1) have ds: "ds \<noteq> []" "spec_digits 16 0 ds = Some v"
    by (auto simp: spec_unsigned_def split: if_splits)
  then have "ParseUint_loop 16 0 False ds = ((v, False), None)"
    using assms(2) by (simp add: ParseUint_loop_spec)
  moreover have "length s \<ge> 3"
    using s ds by (cases ds) simp_all
  moreover have "lower x = CHR ''x''"
    using x by (auto simp: lower_x)
  ultimately show ?thesis
    using s by (simp add: ParseUint_def)
next
  case False
  with assms(1) have s: "s \<noteq> []" "spec_digits 10 0 s = Some v"
    by (auto simp: spec_unsigned_def split: if_splits)
  show ?thesis
  proof (cases "hd s = CHR ''0''")
    case True
    have "length s < 2"
    proof (rule ccontr)
      assume "\<not> length s < 2"
      with True assms(3) have "s ! 1 = CHR ''x'' \<or> s ! 1 = CHR ''X''"
        by auto
      with True \<open>\<not> length s < 2\<close> have "take 2 s = ''0x'' \<or> take 2 s = ''0X''"
        by (cases s; cases "tl s") auto
      with False show False
        by simp
    qed
    with True s have "s = ''0''"
      by (cases s) auto
    with s(2) show ?thesis
      by (simp add: ParseUint_def spec_digit_def)
  next
    case False
    from s assms(2) have "ParseUint_loop 10 0 False s = ((v, False), None)"
      by (simp add: ParseUint_loop_spec)
    with False s(1) show ?thesis
      by (simp add: ParseUint_def)
  qed
qed

lemma int64_id: "- (2 ^ 63) \<le> x \<Longrightarrow> x < 2 ^ 63 \<Longrightarrow> int64 x = x"
  by (simp add: int64_def)

lemma int64_neg:
  assumes "v \<le> 2 ^ 63"
  shows "int64 (- int64 (int v)) = - int v"
proof (cases "v = 2 ^ 63")
  case True
  then show ?thesis
    by (simp add: int64_def)
next
  case False
  with assms have "int v < 2 ^ 63"
    by (metis le_neq_implies_less of_nat_less_numeral_power_cancel_iff)
  then show ?thesis
    by (simp add: int64_id)
qed

lemma ParseInt_spec:
  assumes "spec_numeral tok = Some n" and "\<not> leading_zero tok"
    and "- (2 ^ 63) \<le> n" and "n < 2 ^ 63"
  shows "ParseInt tok = (n, None)"
proof -
  from assms(1) obtain c r where tok: "tok = c # r"
    by (cases tok) (simp_all add: spec_numeral_def)
  show ?thesis
  proof (cases "c = CHR ''-''")
    case True
    with tok assms(1) obtain v where v: "spec_unsigned r = Some v" "n = - int v"
      by (auto simp: spec_numeral_def)
    with assms(3) have le: "v \<le> 2 ^ 63"
      by (simp add: nat_le_iff [symmetric] del: nat_le_iff)
    then have "v < 2 ^ 64"
      by simp
    moreover from assms(2) tok True
    have "\<not> (length r \<ge> 2 \<and> hd r = CHR ''0'' \<and> r ! 1 \<noteq> CHR ''x'' \<and> r ! 1 \<noteq> CHR ''X'')"
      by (simp add: leading_zero_def)
    ultimately have "ParseUint r = (v, None)"
      using v(1) by (simp add: ParseUint_spec)
    with tok True le v(2) show ?thesis
      by (simp add: ParseInt_def int64_neg)
  next
    case False
    note notminus = this
    show ?thesis
    proof (cases "c = CHR ''+''")
      case True
      with tok assms(1) obtain v where v: "spec_unsigned r = Some v" "n = int v"
        by (auto simp: spec_numeral_def)
      with assms(4) have lt: "v < 2 ^ 63"
        by simp
      then have "v < 2 ^ 64"
        by simp
      moreover from assms(2) tok True
      have "\<not> (length r \<ge> 2 \<and> hd r = CHR ''0'' \<and> r ! 1 \<noteq> CHR ''x'' \<and> r ! 1 \<noteq> CHR ''X'')"
        by (simp add: leading_zero_def)
      ultimately have "ParseUint r = (v, None)"
        using v(1) by (simp add: ParseUint_spec)
      moreover have "int64 (int v) = int v"
        using lt by (simp add: int64_id)
      ultimately show ?thesis
        using tok True lt v(2) by (simp add: ParseInt_def)
    next
      case False
      with notminus tok assms(1) obtain v where v: "spec_unsigned tok = Some v" "n = int v"
        by (auto simp: spec_numeral_def)
      with assms(4) have lt: "v < 2 ^ 63"
        by simp
      then have "v < 2 ^ 64"
        by simp
      moreover from assms(2) tok False notminus
      have "\<not> (length tok \<ge> 2 \<and> hd tok = CHR ''0'' \<and> tok ! 1 \<noteq> CHR ''x'' \<and> tok ! 1 \<noteq> CHR ''X'')"
        by (simp add: leading_zero_def)
      ultimately have "ParseUint tok = (v, None)"
        using v(1) by (simp add: ParseUint_spec)
      moreover have "int64 (int v) = int v"
        using lt by (simp add: int64_id)
      ultimately show ?thesis
        using tok False notminus lt v(2) by (simp add: ParseInt_def)
    qed
  qed
qed

section \<open>The scan keeps the last counter line of each name\<close>

lemma scan_lines_append: "scan_lines st (xs @ ys) = scan_lines (scan_lines st xs) ys"
  by (induction xs arbitrary: st) simp_all

lemma bytes_scan_line:
  "bytes (scan_line st l) = (case counter_value ''TotalAlloc'' l of Some v \<Rightarrow> v | None \<Rightarrow> bytes st)"
  by (auto simp: scan_line_def counter_value_def Let_def split: prod.splits option.splits)

lemma allocs_scan_line:
  "allocs (scan_line st l) = (case counter_value ''Mallocs'' l of Some v \<Rightarrow> v | None \<Rightarrow> allocs st)"
  by (auto simp: scan_line_def counter_value_def Let_def split: prod.splits option.splits)

lemma bytes_scan_lines_skip:
  "\<forall>l\<in>set ls. counter_value ''TotalAlloc'' l = None \<Longrightarrow> bytes (scan_lines st ls) = bytes st"
  by (induction ls arbitrary: st) (simp_all add: bytes_scan_line)

lemma allocs_scan_lines_skip:
  "\<forall>l\<in>set ls. counter_value ''Mallocs'' l = None \<Longrightarrow> allocs (scan_lines st ls) = allocs st"
  by (induction ls arbitrary: st) (simp_all add: allocs_scan_line)

lemma bytes_scan_last:
  assumes "counter_value ''TotalAlloc'' l = Some v"
    and "\<forall>l'\<in>set post. counter_value ''TotalAlloc'' l' = None"
  shows "bytes (scan_lines st (pre @ l # post)) = v"
  using assms by (simp add: scan_lines_append bytes_scan_lines_skip bytes_scan_line)

lemma allocs_scan_last:
  assumes "counter_value ''Mallocs'' l = Some v"
    and "\<forall>l'\<in>set post. counter_value ''Mallocs'' l' = None"
  shows "allocs (scan_lines st (pre @ l # post)) = v"
  using assms by (simp add: scan_lines_append allocs_scan_lines_skip allocs_scan_line)

lemma counter_value_token:
  assumes "Fields l = [''#'', nm, ''='', tok]" and "ParseInt tok = (v, None)"
  shows "counter_value nm l = Some v"
  using assms by (simp add: counter_value_def)



section \<open>The counters the scan returns\<close>

lemma counter_value_numeral:
  assumes "Fields l = [''#'', nm, ''='', tok]"
    and "spec_numeral tok = Some n" and "\<not> leading_zero tok"
    and "- (2 ^ 63) \<le> n" and "n < 2 ^ 63"
  shows "counter_value nm l = Some n"
proof -
  have "ParseInt tok = (n, None)"
    using assms(2-5) by (rule ParseInt_spec)
  with assms(1) show ?thesis
    by (rule counter_value_token)
qed

lemma scan_line_skip:
  assumes "length (Fields line) < 4 \<or> Fields line ! 0 \<noteq> ''#'' \<or> Fields line ! 2 \<noteq> ''=''
           \<or> snd (ParseInt (Fields line ! 3)) \<noteq> None
           \<or> (Fields line ! 1 \<noteq> ''TotalAlloc'' \<and> Fields line ! 1 \<noteq> ''Mallocs'')"
  shows "scan_line st line = st"
  using assms by (auto simp: scan_line_def Let_def split: prod.splits option.splits)

text \<open>Claim C1, as amended. If the profile has a line whose tokens are \<open>#\<close>, \<open>TotalAlloc\<close>,
  \<open>=\<close> and a numeral of \<open>n\<close>, and a line whose tokens are \<open>#\<close>, \<open>Mallocs\<close>, \<open>=\<close> and a numeral
  of \<open>m\<close>, where a numeral is a decimal or \<open>0x\<close>-prefixed hexadecimal integer as the
  specification reads it, a decimal one without a leading zero, and \<open>n\<close> and \<open>m\<close> are \<open>int64\<close>
  values, and if no later line is a counter line of the same name whose value parses,
  then the scan returns \<open>bytes = n\<close> and \<open>allocs = m\<close>, whatever the other lines are. A line
  that has fewer than four tokens, or not \<open>#\<close> first, or not \<open>=\<close> third, or a fourth token
  that does not parse, or a name other than the two, leaves the counters as they are.\<close>

theorem profile_scan_returns_last_counters:
  "(Split out newline = pre @ l # post
      \<and> Fields l = [''#'', ''TotalAlloc'', ''='', tok]
      \<and> spec_numeral tok = Some n \<and> \<not> leading_zero tok
      \<and> - (2 ^ 63) \<le> n \<and> n < 2 ^ 63
      \<and> (\<forall>x\<in>set post. counter_value ''TotalAlloc'' x = None)
      \<and> Split out newline = pre' @ l' # post'
      \<and> Fields l' = [''#'', ''Mallocs'', ''='', tok']
      \<and> spec_numeral tok' = Some m \<and> \<not> leading_zero tok'
      \<and> - (2 ^ 63) \<le> m \<and> m < 2 ^ 63
      \<and> (\<forall>x\<in>set post'. counter_value ''Mallocs'' x = None)
    \<longrightarrow> scan_memprof out = \<lparr>allocs = m, bytes = n\<rparr>)
   \<and> (length (Fields line) < 4 \<or> Fields line ! 0 \<noteq> ''#'' \<or> Fields line ! 2 \<noteq> ''=''
        \<or> snd (ParseInt (Fields line ! 3)) \<noteq> None
        \<or> (Fields line ! 1 \<noteq> ''TotalAlloc'' \<and> Fields line ! 1 \<noteq> ''Mallocs'')
    \<longrightarrow> scan_line st line = st)"
proof (intro conjI impI)
  assume a: "Split out newline = pre @ l # post
      \<and> Fields l = [''#'', ''TotalAlloc'', ''='', tok]
      \<and> spec_numeral tok = Some n \<and> \<not> leading_zero tok
      \<and> - (2 ^ 63) \<le> n \<and> n < 2 ^ 63
      \<and> (\<forall>x\<in>set post. counter_value ''TotalAlloc'' x = None)
      \<and> Split out newline = pre' @ l' # post'
      \<and> Fields l' = [''#'', ''Mallocs'', ''='', tok']
      \<and> spec_numeral tok' = Some m \<and> \<not> leading_zero tok'
      \<and> - (2 ^ 63) \<le> m \<and> m < 2 ^ 63
      \<and> (\<forall>x\<in>set post'. counter_value ''Mallocs'' x = None)"
  then have s1: "Split out newline = pre @ l # post"
    and s2: "Split out newline = pre' @ l' # post'"
    and n1: "\<forall>x\<in>set post. counter_value ''TotalAlloc'' x = None"
    and n2: "\<forall>x\<in>set post'. counter_value ''Mallocs'' x = None"
    by blast+
  from a have "counter_value ''TotalAlloc'' l = Some n"
    by (intro counter_value_numeral [of l _ tok]) simp_all
  then have "bytes (scan_lines \<lparr>allocs = 0, bytes = 0\<rparr> (pre @ l # post)) = n"
    using n1 by (rule bytes_scan_last)
  then have b: "bytes (scan_memprof out) = n"
    by (simp only: scan_memprof_def s1)
  from a have "counter_value ''Mallocs'' l' = Some m"
    by (intro counter_value_numeral [of l' _ tok']) simp_all
  then have "allocs (scan_lines \<lparr>allocs = 0, bytes = 0\<rparr> (pre' @ l' # post')) = m"
    using n2 by (rule allocs_scan_last)
  then have "allocs (scan_memprof out) = m"
    by (simp only: scan_memprof_def s2)
  with b show "scan_memprof out = \<lparr>allocs = m, bytes = n\<rparr>"
    by simp
next
  assume "length (Fields line) < 4 \<or> Fields line ! 0 \<noteq> ''#'' \<or> Fields line ! 2 \<noteq> ''=''
        \<or> snd (ParseInt (Fields line ! 3)) \<noteq> None
        \<or> (Fields line ! 1 \<noteq> ''TotalAlloc'' \<and> Fields line ! 1 \<noteq> ''Mallocs'')"
  then show "scan_line st line = st"
    by (rule scan_line_skip)
qed

theorem profile_scan_returns_last_counters_witness:
  "Split ''heap profile: 1: 2\<newline># TotalAlloc = 5\<newline># TotalAlloc = 0x1F\<newline># Mallocs = +7\<newline># NumGC = 3\<newline># Mallocs = abc\<newline>'' newline
     = [''heap profile: 1: 2'', ''# TotalAlloc = 5''] @ ''# TotalAlloc = 0x1F''
         # [''# Mallocs = +7'', ''# NumGC = 3'', ''# Mallocs = abc'', []]
   \<and> Fields ''# TotalAlloc = 0x1F'' = [''#'', ''TotalAlloc'', ''='', ''0x1F'']
   \<and> spec_numeral ''0x1F'' = Some 31 \<and> \<not> leading_zero ''0x1F''
   \<and> Split ''heap profile: 1: 2\<newline># TotalAlloc = 5\<newline># TotalAlloc = 0x1F\<newline># Mallocs = +7\<newline># NumGC = 3\<newline># Mallocs = abc\<newline>'' newline
     = [''heap profile: 1: 2'', ''# TotalAlloc = 5'', ''# TotalAlloc = 0x1F''] @ ''# Mallocs = +7''
         # [''# NumGC = 3'', ''# Mallocs = abc'', []]
   \<and> Fields ''# Mallocs = +7'' = [''#'', ''Mallocs'', ''='', ''+7'']
   \<and> spec_numeral ''+7'' = Some 7 \<and> \<not> leading_zero ''+7''
   \<and> scan_memprof ''heap profile: 1: 2\<newline># TotalAlloc = 5\<newline># TotalAlloc = 0x1F\<newline># Mallocs = +7\<newline># NumGC = 3\<newline># Mallocs = abc\<newline>''
       = \<lparr>allocs = 7, bytes = 31\<rparr>
   \<and> Fields ''# NumGC = 3'' ! 1 \<noteq> ''TotalAlloc'' \<and> Fields ''# NumGC = 3'' ! 1 \<noteq> ''Mallocs''
   \<and> snd (ParseInt (Fields ''# Mallocs = abc'' ! 3)) \<noteq> None
   \<and> scan_line \<lparr>allocs = 7, bytes = 31\<rparr> ''# NumGC = 3'' = \<lparr>allocs = 7, bytes = 31\<rparr>"
proof -
  let ?out = "''heap profile: 1: 2\<newline># TotalAlloc = 5\<newline># TotalAlloc = 0x1F\<newline># Mallocs = +7\<newline># NumGC = 3\<newline># Mallocs = abc\<newline>''"
  have s1: "Split ?out newline
     = [''heap profile: 1: 2'', ''# TotalAlloc = 5''] @ ''# TotalAlloc = 0x1F''
         # [''# Mallocs = +7'', ''# NumGC = 3'', ''# Mallocs = abc'', []]"
    by (simp add: newline_def)
  have s2: "Split ?out newline
     = [''heap profile: 1: 2'', ''# TotalAlloc = 5'', ''# TotalAlloc = 0x1F''] @ ''# Mallocs = +7''
         # [''# NumGC = 3'', ''# Mallocs = abc'', []]"
    by (simp add: newline_def)
  have f1: "Fields ''# TotalAlloc = 0x1F'' = [''#'', ''TotalAlloc'', ''='', ''0x1F'']"
    by (simp add: strings_eval)
  have f2: "Fields ''# Mallocs = +7'' = [''#'', ''Mallocs'', ''='', ''+7'']"
    by (simp add: strings_eval)
  have f3: "Fields ''# NumGC = 3'' = [''#'', ''NumGC'', ''='', ''3'']"
    by (simp add: strings_eval)
  have f4: "Fields ''# Mallocs = abc'' = [''#'', ''Mallocs'', ''='', ''abc'']"
    by (simp add: strings_eval)
  have f5: "Fields [] = []"
    by (simp add: strings_eval)
  have t1: "spec_numeral ''0x1F'' = Some 31"
    by (simp add: spec_eval)
  have z1: "\<not> leading_zero ''0x1F''"
    by (simp add: spec_eval)
  have t2: "spec_numeral ''+7'' = Some 7"
    by (simp add: spec_eval)
  have z2: "\<not> leading_zero ''+7''"
    by (simp add: spec_eval)
  have p1: "snd (ParseInt ''abc'') \<noteq> None"
    by (simp add: ParseInt_eval char_eval)
  have n1: "\<forall>x\<in>set [''# Mallocs = +7'', ''# NumGC = 3'', ''# Mallocs = abc'', []].
              counter_value ''TotalAlloc'' x = None"
    by (simp add: counter_value_def f2 f3 f4 f5)
  have n2: "\<forall>x\<in>set [''# NumGC = 3'', ''# Mallocs = abc'', []]. counter_value ''Mallocs'' x = None"
    using p1 by (simp add: counter_value_def f3 f4 f5)
  have k: "Fields ''# NumGC = 3'' ! 1 \<noteq> ''TotalAlloc'' \<and> Fields ''# NumGC = 3'' ! 1 \<noteq> ''Mallocs''"
    by (simp add: f3)
  have p2: "snd (ParseInt (Fields ''# Mallocs = abc'' ! 3)) \<noteq> None"
    using p1 by (simp add: f4)
  note inst = profile_scan_returns_last_counters
    [where out = ?out and pre = "[''heap profile: 1: 2'', ''# TotalAlloc = 5'']"
       and l = "''# TotalAlloc = 0x1F''"
       and post = "[''# Mallocs = +7'', ''# NumGC = 3'', ''# Mallocs = abc'', []]"
       and tok = "''0x1F''" and n = 31
       and pre' = "[''heap profile: 1: 2'', ''# TotalAlloc = 5'', ''# TotalAlloc = 0x1F'']"
       and l' = "''# Mallocs = +7''" and post' = "[''# NumGC = 3'', ''# Mallocs = abc'', []]"
       and tok' = "''+7''" and m = 7 and line = "''# NumGC = 3''"
       and st = "\<lparr>allocs = 7, bytes = 31\<rparr>"]
  have r1: "scan_memprof ?out = \<lparr>allocs = 7, bytes = 31\<rparr>"
    by (rule mp [OF conjunct1 [OF inst]]) (intro conjI s1 s2 f1 f2 t1 t2 z1 z2 n1 n2, simp_all)
  have r2: "scan_line \<lparr>allocs = 7, bytes = 31\<rparr> ''# NumGC = 3'' = \<lparr>allocs = 7, bytes = 31\<rparr>"
    by (rule mp [OF conjunct2 [OF inst]]) (intro disjI2, rule k)
  show ?thesis
    using k by (intro conjI s1 s2 f1 f2 t1 t2 z1 z2 r1 r2 p2) simp_all
qed

text \<open>The claim as it was stated fails in two ways. Regardless of any other line: when a
  second \<open>TotalAlloc\<close> line follows the first, the scan returns the later value. For every
  decimal numeral: \<open>010\<close>, ten in decimal, is read as the octal numeral of eight.\<close>

theorem profile_scan_duplicate_counterexample:
  "Split ''# TotalAlloc = 1\<newline># Mallocs = 3\<newline># TotalAlloc = 2'' newline
     = [''# TotalAlloc = 1'', ''# Mallocs = 3'', ''# TotalAlloc = 2'']
   \<and> Fields ''# TotalAlloc = 1'' = [''#'', ''TotalAlloc'', ''='', ''1'']
   \<and> spec_numeral ''1'' = Some 1
   \<and> Fields ''# Mallocs = 3'' = [''#'', ''Mallocs'', ''='', ''3'']
   \<and> spec_numeral ''3'' = Some 3
   \<and> scan_memprof ''# TotalAlloc = 1\<newline># Mallocs = 3\<newline># TotalAlloc = 2''
        = \<lparr>allocs = 3, bytes = 2\<rparr>
   \<and> Split ''# TotalAlloc = 010\<newline># Mallocs = 3'' newline
     = [''# TotalAlloc = 010'', ''# Mallocs = 3'']
   \<and> Fields ''# TotalAlloc = 010'' = [''#'', ''TotalAlloc'', ''='', ''010'']
   \<and> spec_numeral ''010'' = Some 10
   \<and> scan_memprof ''# TotalAlloc = 010\<newline># Mallocs = 3'' = \<lparr>allocs = 3, bytes = 8\<rparr>"
proof -
  have a: "Split ''# TotalAlloc = 1\<newline># Mallocs = 3\<newline># TotalAlloc = 2'' newline
     = [''# TotalAlloc = 1'', ''# Mallocs = 3'', ''# TotalAlloc = 2'']"
    by (simp add: newline_def)
  have b: "Fields ''# TotalAlloc = 1'' = [''#'', ''TotalAlloc'', ''='', ''1'']"
    by (simp add: strings_eval)
  have c: "spec_numeral ''1'' = Some 1"
    by (simp add: spec_eval)
  have d: "Fields ''# Mallocs = 3'' = [''#'', ''Mallocs'', ''='', ''3'']"
    by (simp add: strings_eval)
  have e: "spec_numeral ''3'' = Some 3"
    by (simp add: spec_eval)
  have f: "scan_memprof ''# TotalAlloc = 1\<newline># Mallocs = 3\<newline># TotalAlloc = 2''
        = \<lparr>allocs = 3, bytes = 2\<rparr>"
    by (simp add: scan_memprof_def scan_line_def strings_eval ParseInt_eval char_eval)
  have g: "Split ''# TotalAlloc = 010\<newline># Mallocs = 3'' newline
     = [''# TotalAlloc = 010'', ''# Mallocs = 3'']"
    by (simp add: newline_def)
  have h: "Fields ''# TotalAlloc = 010'' = [''#'', ''TotalAlloc'', ''='', ''010'']"
    by (simp add: strings_eval)
  have i: "spec_numeral ''010'' = Some 10"
    by (simp add: spec_eval)
  have j: "scan_memprof ''# TotalAlloc = 010\<newline># Mallocs = 3'' = \<lparr>allocs = 3, bytes = 8\<rparr>"
    by (simp add: scan_memprof_def scan_line_def strings_eval ParseInt_eval char_eval)
  show ?thesis
    by (intro conjI a b c d e f g h i j)
qed

section \<open>What each operation leaves unchanged\<close>

lemma log_Print_frame [simp]:
  "stdout (log_Print msg w) = stdout w"
  "files (log_Print msg w) = files w"
  "started (log_Print msg w) = started w"
  "flagAlloc (log_Print msg w) = flagAlloc w"
  "flagCpuprofile (log_Print msg w) = flagCpuprofile w"
  "flagMemprofile (log_Print msg w) = flagMemprofile w"
  "flagMemprofilerate (log_Print msg w) = flagMemprofilerate w"
  by (simp_all add: log_Print_def)

lemma log_Printf_frame [simp]:
  "stdout (log_Printf fm args w) = stdout w"
  "files (log_Printf fm args w) = files w"
  "started (log_Printf fm args w) = started w"
  "flagAlloc (log_Printf fm args w) = flagAlloc w"
  "flagCpuprofile (log_Printf fm args w) = flagCpuprofile w"
  "flagMemprofile (log_Printf fm args w) = flagMemprofile w"
  "flagMemprofilerate (log_Printf fm args w) = flagMemprofilerate w"
  by (simp_all add: log_Printf_def)

lemma fmt_Printf_frame [simp]:
  "stdout (fmt_Printf fm args w) = stdout w @ [Sprintf fm args]"
  "stderr (fmt_Printf fm args w) = stderr w"
  "files (fmt_Printf fm args w) = files w"
  "started (fmt_Printf fm args w) = started w"
  "flagAlloc (fmt_Printf fm args w) = flagAlloc w"
  "flagCpuprofile (fmt_Printf fm args w) = flagCpuprofile w"
  "flagMemprofile (fmt_Printf fm args w) = flagMemprofile w"
  "flagMemprofilerate (fmt_Printf fm args w) = flagMemprofilerate w"
  by (simp_all add: fmt_Printf_def)

lemma Remove_frame [simp]:
  "stdout (Remove sys p w) = stdout w"
  "stderr (Remove sys p w) = stderr w"
  "started (Remove sys p w) = started w"
  "flagAlloc (Remove sys p w) = flagAlloc w"
  "flagCpuprofile (Remove sys p w) = flagCpuprofile w"
  "flagMemprofile (Remove sys p w) = flagMemprofile w"
  "flagMemprofilerate (Remove sys p w) = flagMemprofilerate w"
  by (simp_all add: Remove_def)

lemma Run_frame [simp]:
  "fst (Run sys c w) = exec sys w c"
  "stdout (snd (Run sys c w)) = stdout w"
  "stderr (snd (Run sys c w)) = stderr w @ [run_output (exec sys w c)]"
  "files (snd (Run sys c w)) = run_files (exec sys w c)"
  "started (snd (Run sys c w)) = started w @ [c]"
  "flagAlloc (snd (Run sys c w)) = flagAlloc w"
  "flagCpuprofile (snd (Run sys c w)) = flagCpuprofile w"
  "flagMemprofile (snd (Run sys c w)) = flagMemprofile w"
  "flagMemprofilerate (snd (Run sys c w)) = flagMemprofilerate w"
  by (simp_all add: Run_def Let_def)

lemma CombinedOutput_frame [simp]:
  "fst (CombinedOutput sys c w) = exec sys w c"
  "stdout (snd (CombinedOutput sys c w)) = stdout w"
  "stderr (snd (CombinedOutput sys c w)) = stderr w"
  "files (snd (CombinedOutput sys c w)) = run_files (exec sys w c)"
  "started (snd (CombinedOutput sys c w)) = started w @ [c]"
  "flagAlloc (snd (CombinedOutput sys c w)) = flagAlloc w"
  "flagCpuprofile (snd (CombinedOutput sys c w)) = flagCpuprofile w"
  "flagMemprofile (snd (CombinedOutput sys c w)) = flagMemprofile w"
  "flagMemprofilerate (snd (CombinedOutput sys c w)) = flagMemprofilerate w"
  by (simp_all add: CombinedOutput_def Let_def)

lemma WriteFile_frame [simp]:
  "fst (WriteFile sys p d w) = write_fails sys p"
  "stdout (snd (WriteFile sys p d w)) = stdout w"
  "stderr (snd (WriteFile sys p d w)) = stderr w"
  "started (snd (WriteFile sys p d w)) = started w"
  "flagAlloc (snd (WriteFile sys p d w)) = flagAlloc w"
  "flagCpuprofile (snd (WriteFile sys p d w)) = flagCpuprofile w"
  "flagMemprofile (snd (WriteFile sys p d w)) = flagMemprofile w"
  "flagMemprofilerate (snd (WriteFile sys p d w)) = flagMemprofilerate w"
  by (simp_all add: WriteFile_def split: option.splits)

lemma Sprintf_ns:
  "Sprintf ''%s 1 %d ns/op\<newline>'' [S nm, I t] = nm @ '' 1 '' @ itoa t @ '' ns/op\<newline>''"
  by simp

lemma Sprintf_user:
  "Sprintf ''%s 1 %d ns/op %d user-ns/op\<newline>'' [S nm, I t, I u]
     = nm @ '' 1 '' @ itoa t @ '' ns/op '' @ itoa u @ '' user-ns/op\<newline>''"
  by simp

lemma Sprintf_alloc:
  "Sprintf ''%s 1 %d ns/op %d user-ns/op %d B/op %d allocs/op\<newline>'' [S nm, I t, I u, I b, I a]
     = nm @ '' 1 '' @ itoa t @ '' ns/op '' @ itoa u @ '' user-ns/op '' @ itoa b @ '' B/op ''
         @ itoa a @ '' allocs/op\<newline>''"
  by simp

lemma Sprintf_text_data:
  "Sprintf ''%s 1 %s text-bytes %s data-bytes %v exe-bytes\<newline>'' [S nm, S t, S d, I e]
     = nm @ '' 1 '' @ t @ '' text-bytes '' @ d @ '' data-bytes '' @ itoa e @ '' exe-bytes\<newline>''"
  by simp

lemma Sprintf_text_data_bss:
  "Sprintf ''%s 1 %s text-bytes %s data-bytes %s bss-bytes %v exe-bytes\<newline>''
       [S nm, S t, S d, S b, I e]
     = nm @ '' 1 '' @ t @ '' text-bytes '' @ d @ '' data-bytes '' @ b @ '' bss-bytes '' @ itoa e
         @ '' exe-bytes\<newline>''"
  by simp

lemma Sprintf_old:
  "Sprintf ''Benchmark%s 1 %d ns/op %d B/op %d allocs/op\<newline>'' [S nm, I t, I b, I a]
     = ''Benchmark'' @ nm @ '' 1 '' @ itoa t @ '' ns/op '' @ itoa b @ '' B/op '' @ itoa a
         @ '' allocs/op\<newline>''"
  by simp

section \<open>What is written to standard output\<close>

lemma runCmd_stdout:
  "stdout (runCmd sys nm cmd w) =
     (case run_err (exec sys w cmd) of
        Some err \<Rightarrow> stdout w
      | None \<Rightarrow> stdout w @ [spec_record_line nm [(itoa (run_wall (exec sys w cmd)), ''ns/op'')] @ [newline]])"
  by (simp add: runCmd_def case_prod_beta Let_def spec_record_line_def newline_def split: option.splits)

text \<open>What \<open>size_report\<close> writes to standard output: the record of one of the two shapes, or
  nothing.\<close>

lemma size_report_stdout:
  "stdout (size_report nm sz out w) =
     (if length (Split out newline) \<ge> 2 \<and> HasPrefix (Split out newline ! 0) ''__TEXT''
          \<and> length (Fields (Split out newline ! 1)) \<ge> 2
      then stdout w @
        [spec_record_line nm
           [(Fields (Split out newline ! 1) ! 0, ''text-bytes''),
            (Fields (Split out newline ! 1) ! 1, ''data-bytes''),
            (itoa sz, ''exe-bytes'')] @ [newline]]
      else if length (Split out newline) \<ge> 2 \<and> Contains (Split out newline ! 0) ''bss''
          \<and> length (Fields (Split out newline ! 1)) \<ge> 3
      then stdout w @
        [spec_record_line nm
           [(Fields (Split out newline ! 1) ! 0, ''text-bytes''),
            (Fields (Split out newline ! 1) ! 1, ''data-bytes''),
            (Fields (Split out newline ! 1) ! 2, ''bss-bytes''),
            (itoa sz, ''exe-bytes'')] @ [newline]]
      else stdout w)"
  by (simp add: size_report_def Let_def spec_record_line_def newline_def)

lemma size_measure_stdout:
  "stdout (size_measure sys nm w) =
     (case Stat sys ''_compilebenchout_'' w of
        (sz, Some err) \<Rightarrow> stdout w
      | (sz, None) \<Rightarrow>
          (case run_err (exec sys w \<lparr>cmd_name = ''size'', cmd_args = [''_compilebenchout_''],
                                     cmd_dir = []\<rparr>) of
             Some err \<Rightarrow> stdout w
           | None \<Rightarrow>
               stdout (size_report nm sz
                 (run_output (exec sys w \<lparr>cmd_name = ''size'', cmd_args = [''_compilebenchout_''],
                                           cmd_dir = []\<rparr>))
                 w)))"
  by (simp add: size_measure_def case_prod_beta Let_def size_report_stdout
        split: option.splits prod.splits)

lemma runSize_stdout:
  "stdout (runSize sys cfg nm path w) =
     (case run_err (exec sys w (size_build_command cfg path)) of
        Some err \<Rightarrow> stdout w
      | None \<Rightarrow> stdout (size_measure sys nm (snd (Run sys (size_build_command cfg path) w))))"
  by (simp add: runSize_def case_prod_beta Let_def split: option.splits)

lemma read_memprofile_frame [simp]:
  "stdout (snd (read_memprofile sys pkgdir w)) = stdout w"
  "started (snd (read_memprofile sys pkgdir w)) = started w"
  "flagAlloc (snd (read_memprofile sys pkgdir w)) = flagAlloc w"
  "flagCpuprofile (snd (read_memprofile sys pkgdir w)) = flagCpuprofile w"
  "flagMemprofile (snd (read_memprofile sys pkgdir w)) = flagMemprofile w"
  "flagMemprofilerate (snd (read_memprofile sys pkgdir w)) = flagMemprofilerate w"
  by (simp_all add: read_memprofile_def Let_def case_prod_beta split: option.splits)

lemma copy_cpuprofile_frame [simp]:
  "stdout (copy_cpuprofile sys pkgdir w) = stdout w"
  "started (copy_cpuprofile sys pkgdir w) = started w"
  "flagAlloc (copy_cpuprofile sys pkgdir w) = flagAlloc w"
  "flagCpuprofile (copy_cpuprofile sys pkgdir w) = flagCpuprofile w"
  "flagMemprofile (copy_cpuprofile sys pkgdir w) = flagMemprofile w"
  "flagMemprofilerate (copy_cpuprofile sys pkgdir w) = flagMemprofilerate w"
  by (simp_all add: copy_cpuprofile_def Let_def case_prod_beta split: option.splits)

lemma clear_flags_6g_frame [simp]:
  "stdout (clear_flags_6g cfg w) = stdout w"
  "stderr (clear_flags_6g cfg w) = stderr w"
  "files (clear_flags_6g cfg w) = files w"
  "started (clear_flags_6g cfg w) = started w"
  by (simp_all add: clear_flags_6g_def)

text \<open>What \<open>compile\<close> writes to standard output: nothing when the compiler fails, else the
  one record, with the two counters when \<open>-alloc\<close> is set.\<close>

lemma compile_stdout:
  "stdout (compile sys cfg nm gofiles pkgdir w) =
     (let w0 = clear_flags_6g cfg w;
          r = exec sys w0 (compile_command cfg w0 gofiles pkgdir);
          cnt = fst (read_memprofile sys pkgdir (snd (Run sys (compile_command cfg w0 gofiles pkgdir) w0)))
      in case run_err r of
           Some err \<Rightarrow> stdout w
         | None \<Rightarrow>
             if flagAlloc w0
             then stdout w @ [spec_record_line nm
                    [(itoa (run_wall r), ''ns/op''), (itoa (run_user r), ''user-ns/op''),
                     (itoa (bytes cnt), ''B/op''), (itoa (allocs cnt), ''allocs/op'')] @ [newline]]
             else stdout w @ [spec_record_line nm
                    [(itoa (run_wall r), ''ns/op''), (itoa (run_user r), ''user-ns/op'')] @ [newline]])"
  by (simp add: compile_def Let_def case_prod_beta spec_record_line_def newline_def split: option.splits)

lemma read_memprofile_counters:
  "flagAlloc w \<Longrightarrow>
   fst (read_memprofile sys pkgdir w)
     = scan_memprof (fst (ReadFile sys (pkgdir @ ''/_compilebench_.memprof'') w))"
  by (simp add: read_memprofile_def Let_def case_prod_beta)

text \<open>One call adds nothing or one record, of at least one pair, the last of them with one
  of four units.\<close>

lemma size_report_one_record:
  "stdout (size_report nm sz out w) = stdout w
   \<or> (\<exists>ps. ps \<noteq> [] \<and> snd (last ps) \<in> {''ns/op'', ''user-ns/op'', ''allocs/op'', ''exe-bytes''}
         \<and> stdout (size_report nm sz out w) = stdout w @ [spec_record_line nm ps @ [newline]])"
proof -
  let ?f = "Fields (Split out newline ! 1)"
  let ?a = "[(?f ! 0, ''text-bytes''), (?f ! 1, ''data-bytes''), (itoa sz, ''exe-bytes'')]"
  let ?b = "[(?f ! 0, ''text-bytes''), (?f ! 1, ''data-bytes''), (?f ! 2, ''bss-bytes''),
             (itoa sz, ''exe-bytes'')]"
  have "?a \<noteq> [] \<and> snd (last ?a) \<in> {''ns/op'', ''user-ns/op'', ''allocs/op'', ''exe-bytes''}"
    "?b \<noteq> [] \<and> snd (last ?b) \<in> {''ns/op'', ''user-ns/op'', ''allocs/op'', ''exe-bytes''}"
    by simp_all
  then show ?thesis
    unfolding size_report_stdout by (simp only: split: if_split) blast
qed

lemma runSize_one_record:
  "stdout (runSize sys cfg nm path w) = stdout w
   \<or> (\<exists>ps. ps \<noteq> [] \<and> snd (last ps) \<in> {''ns/op'', ''user-ns/op'', ''allocs/op'', ''exe-bytes''}
         \<and> stdout (runSize sys cfg nm path w) = stdout w @ [spec_record_line nm ps @ [newline]])"
proof -
  let ?w1 = "snd (Run sys (size_build_command cfg path) w)"
  have "stdout (size_report nm sz out ?w1) = stdout w
     \<or> (\<exists>ps. ps \<noteq> [] \<and> snd (last ps) \<in> {''ns/op'', ''user-ns/op'', ''allocs/op'', ''exe-bytes''}
           \<and> stdout (size_report nm sz out ?w1) = stdout w @ [spec_record_line nm ps @ [newline]])"
    for sz out
    using size_report_one_record [of nm sz out ?w1] by simp
  then show ?thesis
    unfolding runSize_stdout size_measure_stdout
    by (simp split: option.splits prod.splits)
qed

lemma runCmd_one_record:
  "stdout (runCmd sys nm cmd w) = stdout w
   \<or> (\<exists>ps. ps \<noteq> [] \<and> snd (last ps) \<in> {''ns/op'', ''user-ns/op'', ''allocs/op'', ''exe-bytes''}
         \<and> stdout (runCmd sys nm cmd w) = stdout w @ [spec_record_line nm ps @ [newline]])"
proof -
  let ?a = "[(itoa (run_wall (exec sys w cmd)), ''ns/op'')]"
  have "?a \<noteq> [] \<and> snd (last ?a) \<in> {''ns/op'', ''user-ns/op'', ''allocs/op'', ''exe-bytes''}"
    by simp
  then show ?thesis
    unfolding runCmd_stdout by (simp only: split: option.split) blast
qed

lemma compile_one_record:
  "stdout (compile sys cfg nm gofiles pkgdir w) = stdout w
   \<or> (\<exists>ps. ps \<noteq> [] \<and> snd (last ps) \<in> {''ns/op'', ''user-ns/op'', ''allocs/op'', ''exe-bytes''}
         \<and> stdout (compile sys cfg nm gofiles pkgdir w) = stdout w @ [spec_record_line nm ps @ [newline]])"
proof -
  have "[(t, ''ns/op''), (u, ''user-ns/op''), (b, ''B/op''), (a, ''allocs/op'')] \<noteq> []
      \<and> snd (last [(t, ''ns/op''), (u, ''user-ns/op''), (b, ''B/op''), (a, ''allocs/op'')])
          \<in> {''ns/op'', ''user-ns/op'', ''allocs/op'', ''exe-bytes''}"
    "[(t, ''ns/op''), (u, ''user-ns/op'')] \<noteq> []
      \<and> snd (last [(t, ''ns/op''), (u, ''user-ns/op'')])
          \<in> {''ns/op'', ''user-ns/op'', ''allocs/op'', ''exe-bytes''}"
    for t u b a :: string
    by simp_all
  then show ?thesis
    unfolding compile_stdout Let_def by (simp only: split: option.split if_split) blast
qed

lemma runBuild_one_record:
  "stdout (snd (runBuild sys cfg nm dir file w)) = stdout w
   \<or> (\<exists>ps. ps \<noteq> [] \<and> snd (last ps) \<in> {''ns/op'', ''user-ns/op'', ''allocs/op'', ''exe-bytes''}
         \<and> stdout (snd (runBuild sys cfg nm dir file w)) = stdout w @ [spec_record_line nm ps @ [newline]])"
  using runCmd_one_record [of sys "''BenchmarkStdCmd''" "stdcmd_command sys cfg" w]
    runSize_one_record [of sys cfg "''BenchmarkCmdGoSize''" "''cmd/go''" w]
    runSize_one_record [of sys cfg "''BenchmarkHelloSize''" "Join sys (GOROOT sys) ''test/helloworld.go''" w]
    compile_one_record [of sys cfg nm "[file]" dir w]
    compile_one_record [of sys cfg nm _ _ w]
  by (auto simp: runBuild_def runStdCmd_def case_prod_beta split: sum.splits)

lemma spec_record_line_marker:
  "ps \<noteq> [] \<Longrightarrow> take (length nm + 3) (spec_record_line nm ps @ [newline]) = nm @ '' 1 ''"
  by (cases ps) (simp_all add: spec_record_line_def case_prod_beta)

lemma spec_record_line_end:
  assumes "ps \<noteq> []"
  shows "\<exists>pre. rev (spec_record_line nm ps @ [newline]) = newline # rev (snd (last ps)) @ pre"
proof -
  from assms obtain xs v u where ps: "ps = xs @ [(v, u)]"
    by (cases ps rule: rev_cases) auto
  have "rev (spec_record_line nm (xs @ [(v, u)]) @ [newline])
      = newline # rev u @ CHR '' '' # rev v @ CHR '' '' # rev (spec_record_line nm xs)"
    by (simp add: spec_record_line_def)
  then show ?thesis
    unfolding ps by simp
qed

lemma example_line_is_no_record:
  assumes "ps \<noteq> []"
    and "snd (last ps) \<in> {''ns/op'', ''user-ns/op'', ''allocs/op'', ''exe-bytes''}"
  shows "spec_record_line nm ps @ [newline] \<noteq> ''BenchmarkX 1 1234 ns/op 56 B/op\<newline>''"
proof
  assume "spec_record_line nm ps @ [newline] = ''BenchmarkX 1 1234 ns/op 56 B/op\<newline>''"
  then have "rev (spec_record_line nm ps @ [newline]) = rev ''BenchmarkX 1 1234 ns/op 56 B/op\<newline>''"
    by (rule arg_cong)
  moreover from spec_record_line_end [OF assms(1), of nm]
  obtain pre where "rev (spec_record_line nm ps @ [newline]) = newline # rev (snd (last ps)) @ pre"
    by blast
  ultimately have e: "newline # rev (snd (last ps)) @ pre = rev ''BenchmarkX 1 1234 ns/op 56 B/op\<newline>''"
    by simp
  from assms(2) consider "snd (last ps) = ''ns/op''" | "snd (last ps) = ''user-ns/op''"
    | "snd (last ps) = ''allocs/op''" | "snd (last ps) = ''exe-bytes''"
    by blast
  then show False
  proof cases
    case 1
    with e show False by simp
  next
    case 2
    with e show False by simp
  next
    case 3
    with e show False by simp
  next
    case 4
    with e show False by simp
  qed
qed

text \<open>Lines 193 to 202 and 167 to 205 of the older file.\<close>

lemma copy_cpuprofile0_stdout [simp]:
  "stdout (snd (copy_cpuprofile0 sys pkgdir w)) = stdout w"
  by (simp add: copy_cpuprofile0_def ReadFile_def case_prod_beta split: option.splits)

lemma report0_stdout:
  "stdout (snd (report0 sys nm pkgdir wallns out w)) =
     stdout w @ [spec_record_line (''Benchmark'' @ nm)
        [(itoa wallns, ''ns/op''), (itoa (bytes (scan_memprof out)), ''B/op''),
         (itoa (allocs (scan_memprof out)), ''allocs/op'')] @ [newline]]"
  by (simp add: report0_def Let_def case_prod_beta spec_record_line_def newline_def
           split: option.splits outcome.splits)

section \<open>The records\<close>

text \<open>Claim C2, as amended: in \<open>main.go\<close>. Every record that \<open>runBuild\<close> prints is the line
  \<open><name> 1 <value1> <unit1> <value2> <unit2> ...\<close> of the record emitter, followed by a line
  feed, for the name of the benchmark and the pairs of its print site. When \<open>go build std cmd\<close>
  succeeds, \<open>BenchmarkStdCmd\<close> prints the pair of the wall time and \<open>ns/op\<close>. When the compiler
  succeeds, a compilation prints the wall time with \<open>ns/op\<close> and the user time with
  \<open>user-ns/op\<close>, and with \<open>-alloc\<close> in force also the two counters of the scan with \<open>B/op\<close> and
  \<open>allocs/op\<close>. When the build, \<open>os.Stat\<close> and the size tool succeed and the tool prints at
  least two lines, a size benchmark prints the record of the shape of the header, or
  nothing. Whatever happens, one call adds nothing to standard output or one such line,
  of at least one pair; every line added starts with the name, the marker \<open>1\<close> and a space;
  and no call prints the line \<open>BenchmarkX 1 1234 ns/op 56 B/op\<close>, since no print site has
  these two units alone.\<close>

theorem records_follow_the_line_format:
  "(run_err (exec sys w (stdcmd_command sys cfg)) = None
    \<longrightarrow> stdout (snd (runBuild sys cfg ''BenchmarkStdCmd'' dir gofile w))
          = stdout w @
            [spec_record_line ''BenchmarkStdCmd''
               [(itoa (run_wall (exec sys w (stdcmd_command sys cfg))), ''ns/op'')] @ [newline]])
   \<and> (nm \<noteq> ''BenchmarkStdCmd'' \<and> nm \<noteq> ''BenchmarkCmdGoSize'' \<and> nm \<noteq> ''BenchmarkHelloSize''
      \<and> (gofile \<noteq> [] \<and> gofiles = [gofile] \<and> pkgdir = dir
          \<or> gofile = [] \<and> dir \<noteq> [] \<and> build_Import sys w dir = Inr (gofiles, pkgdir))
      \<and> w0 = clear_flags_6g cfg w
      \<and> r = exec sys w0 (compile_command cfg w0 gofiles pkgdir)
      \<and> run_err r = None
      \<and> cnt = scan_memprof (fst (ReadFile sys (pkgdir @ ''/_compilebench_.memprof'')
                  (snd (Run sys (compile_command cfg w0 gofiles pkgdir) w0))))
    \<longrightarrow> stdout (snd (runBuild sys cfg nm dir gofile w))
          = stdout w @
            [spec_record_line nm
               (if flagAlloc w0
                then [(itoa (run_wall r), ''ns/op''), (itoa (run_user r), ''user-ns/op''),
                      (itoa (bytes cnt), ''B/op''), (itoa (allocs cnt), ''allocs/op'')]
                else [(itoa (run_wall r), ''ns/op''), (itoa (run_user r), ''user-ns/op'')])
             @ [newline]])
   \<and> ((nm = ''BenchmarkCmdGoSize'' \<and> path = ''cmd/go''
        \<or> nm = ''BenchmarkHelloSize'' \<and> path = Join sys (GOROOT sys) ''test/helloworld.go'')
      \<and> run_err (exec sys w (size_build_command cfg path)) = None
      \<and> w1 = snd (Run sys (size_build_command cfg path) w)
      \<and> Stat sys ''_compilebenchout_'' w1 = (sz, None)
      \<and> sr = exec sys w1 \<lparr>cmd_name = ''size'', cmd_args = [''_compilebenchout_''], cmd_dir = []\<rparr>
      \<and> run_err sr = None
      \<and> Split (run_output sr) newline = l0 # l1 # ls
      \<and> f = Fields l1
    \<longrightarrow> stdout (snd (runBuild sys cfg nm dir gofile w))
          = (if HasPrefix l0 ''__TEXT'' \<and> length f \<ge> 2 then
               stdout w @
               [spec_record_line nm
                  [(f ! 0, ''text-bytes''), (f ! 1, ''data-bytes''), (itoa sz, ''exe-bytes'')]
                @ [newline]]
             else if Contains l0 ''bss'' \<and> length f \<ge> 3 then
               stdout w @
               [spec_record_line nm
                  [(f ! 0, ''text-bytes''), (f ! 1, ''data-bytes''), (f ! 2, ''bss-bytes''),
                   (itoa sz, ''exe-bytes'')]
                @ [newline]]
             else stdout w))
   \<and> (stdout (snd (runBuild sys cfg nm dir gofile w)) = stdout w
       \<or> (\<exists>ps. ps \<noteq> []
             \<and> stdout (snd (runBuild sys cfg nm dir gofile w))
                 = stdout w @ [spec_record_line nm ps @ [newline]]))
   \<and> (\<forall>line \<in> set (drop (length (stdout w)) (stdout (snd (runBuild sys cfg nm dir gofile w)))).
         take (length nm + 3) line = nm @ '' 1 '')
   \<and> stdout (snd (runBuild sys cfg nm dir gofile w))
       \<noteq> stdout w @ [''BenchmarkX 1 1234 ns/op 56 B/op\<newline>'']"
proof (intro conjI impI)
  assume "run_err (exec sys w (stdcmd_command sys cfg)) = None"
  then show "stdout (snd (runBuild sys cfg ''BenchmarkStdCmd'' dir gofile w))
          = stdout w @
            [spec_record_line ''BenchmarkStdCmd''
               [(itoa (run_wall (exec sys w (stdcmd_command sys cfg))), ''ns/op'')] @ [newline]]"
    by (simp add: runBuild_def runStdCmd_def runCmd_stdout)
next
  assume a: "nm \<noteq> ''BenchmarkStdCmd'' \<and> nm \<noteq> ''BenchmarkCmdGoSize'' \<and> nm \<noteq> ''BenchmarkHelloSize''
      \<and> (gofile \<noteq> [] \<and> gofiles = [gofile] \<and> pkgdir = dir
          \<or> gofile = [] \<and> dir \<noteq> [] \<and> build_Import sys w dir = Inr (gofiles, pkgdir))
      \<and> w0 = clear_flags_6g cfg w
      \<and> r = exec sys w0 (compile_command cfg w0 gofiles pkgdir)
      \<and> run_err r = None
      \<and> cnt = scan_memprof (fst (ReadFile sys (pkgdir @ ''/_compilebench_.memprof'')
                  (snd (Run sys (compile_command cfg w0 gofiles pkgdir) w0))))"
  then have b: "runBuild sys cfg nm dir gofile w = (Returned, compile sys cfg nm gofiles pkgdir w)"
    by (auto simp: runBuild_def)
  from a have c: "flagAlloc w0 \<Longrightarrow>
      fst (read_memprofile sys pkgdir (snd (Run sys (compile_command cfg w0 gofiles pkgdir) w0))) = cnt"
    by (simp add: read_memprofile_counters)
  from a have d: "w0 = clear_flags_6g cfg w"
    "r = exec sys w0 (compile_command cfg w0 gofiles pkgdir)" "run_err r = None"
    by blast+
  show "stdout (snd (runBuild sys cfg nm dir gofile w))
          = stdout w @
            [spec_record_line nm
               (if flagAlloc w0
                then [(itoa (run_wall r), ''ns/op''), (itoa (run_user r), ''user-ns/op''),
                      (itoa (bytes cnt), ''B/op''), (itoa (allocs cnt), ''allocs/op'')]
                else [(itoa (run_wall r), ''ns/op''), (itoa (run_user r), ''user-ns/op'')])
             @ [newline]]"
  proof (cases "flagAlloc w0")
    case True
    with c d show ?thesis
      unfolding b by (simp add: compile_stdout Let_def)
  next
    case False
    with d show ?thesis
      unfolding b by (simp add: compile_stdout Let_def)
  qed
next
  assume a: "(nm = ''BenchmarkCmdGoSize'' \<and> path = ''cmd/go''
        \<or> nm = ''BenchmarkHelloSize'' \<and> path = Join sys (GOROOT sys) ''test/helloworld.go'')
      \<and> run_err (exec sys w (size_build_command cfg path)) = None
      \<and> w1 = snd (Run sys (size_build_command cfg path) w)
      \<and> Stat sys ''_compilebenchout_'' w1 = (sz, None)
      \<and> sr = exec sys w1 \<lparr>cmd_name = ''size'', cmd_args = [''_compilebenchout_''], cmd_dir = []\<rparr>
      \<and> run_err sr = None
      \<and> Split (run_output sr) newline = l0 # l1 # ls
      \<and> f = Fields l1"
  then have b: "runBuild sys cfg nm dir gofile w = (Returned, runSize sys cfg nm path w)"
    by (auto simp: runBuild_def)
  from a have c: "run_err (exec sys w (size_build_command cfg path)) = None"
    "Stat sys ''_compilebenchout_'' (snd (Run sys (size_build_command cfg path) w)) = (sz, None)"
    "run_err (exec sys (snd (Run sys (size_build_command cfg path) w))
        \<lparr>cmd_name = ''size'', cmd_args = [''_compilebenchout_''], cmd_dir = []\<rparr>) = None"
    "Split (run_output (exec sys (snd (Run sys (size_build_command cfg path) w))
        \<lparr>cmd_name = ''size'', cmd_args = [''_compilebenchout_''], cmd_dir = []\<rparr>)) newline
       = l0 # l1 # ls"
    "f = Fields l1"
    by blast+
  show "stdout (snd (runBuild sys cfg nm dir gofile w))
          = (if HasPrefix l0 ''__TEXT'' \<and> length f \<ge> 2 then
               stdout w @
               [spec_record_line nm
                  [(f ! 0, ''text-bytes''), (f ! 1, ''data-bytes''), (itoa sz, ''exe-bytes'')]
                @ [newline]]
             else if Contains l0 ''bss'' \<and> length f \<ge> 3 then
               stdout w @
               [spec_record_line nm
                  [(f ! 0, ''text-bytes''), (f ! 1, ''data-bytes''), (f ! 2, ''bss-bytes''),
                   (itoa sz, ''exe-bytes'')]
                @ [newline]]
             else stdout w)"
    unfolding b by (simp add: runSize_stdout size_measure_stdout size_report_stdout c)
next
  from runBuild_one_record [of sys cfg nm dir gofile w]
  show "stdout (snd (runBuild sys cfg nm dir gofile w)) = stdout w
       \<or> (\<exists>ps. ps \<noteq> []
             \<and> stdout (snd (runBuild sys cfg nm dir gofile w))
                 = stdout w @ [spec_record_line nm ps @ [newline]])"
    by blast
next
  from runBuild_one_record [of sys cfg nm dir gofile w]
  show "\<forall>line \<in> set (drop (length (stdout w)) (stdout (snd (runBuild sys cfg nm dir gofile w)))).
         take (length nm + 3) line = nm @ '' 1 ''"
  proof
    assume "stdout (snd (runBuild sys cfg nm dir gofile w)) = stdout w"
    then show ?thesis
      by simp
  next
    assume "\<exists>ps. ps \<noteq> [] \<and> snd (last ps) \<in> {''ns/op'', ''user-ns/op'', ''allocs/op'', ''exe-bytes''}
         \<and> stdout (snd (runBuild sys cfg nm dir gofile w)) = stdout w @ [spec_record_line nm ps @ [newline]]"
    then obtain ps where ps: "ps \<noteq> []"
      "stdout (snd (runBuild sys cfg nm dir gofile w)) = stdout w @ [spec_record_line nm ps @ [newline]]"
      by blast
    have "drop (length (stdout w)) (stdout w @ [spec_record_line nm ps @ [newline]])
        = [spec_record_line nm ps @ [newline]]"
      by simp
    with spec_record_line_marker [OF ps(1), of nm] show ?thesis
      unfolding ps(2) by (simp only: list.set ball_simps insert_iff empty_iff simp_thms)
  qed
next
  from runBuild_one_record [of sys cfg nm dir gofile w]
  show "stdout (snd (runBuild sys cfg nm dir gofile w))
       \<noteq> stdout w @ [''BenchmarkX 1 1234 ns/op 56 B/op\<newline>'']"
  proof
    assume "stdout (snd (runBuild sys cfg nm dir gofile w)) = stdout w"
    then show ?thesis
      by simp
  next
    assume "\<exists>ps. ps \<noteq> [] \<and> snd (last ps) \<in> {''ns/op'', ''user-ns/op'', ''allocs/op'', ''exe-bytes''}
         \<and> stdout (snd (runBuild sys cfg nm dir gofile w)) = stdout w @ [spec_record_line nm ps @ [newline]]"
    then obtain ps where ps: "ps \<noteq> []"
      "snd (last ps) \<in> {''ns/op'', ''user-ns/op'', ''allocs/op'', ''exe-bytes''}"
      "stdout (snd (runBuild sys cfg nm dir gofile w)) = stdout w @ [spec_record_line nm ps @ [newline]]"
      by blast
    from example_line_is_no_record [OF ps(1,2), of nm] show ?thesis
      unfolding ps(3) by simp
  qed
qed

theorem records_follow_the_line_format_witness:
  "run_err (exec working_system initial_world (stdcmd_command working_system default_settings))
     = None
   \<and> stdout (snd (runBuild working_system default_settings ''BenchmarkStdCmd'' [] [] initial_world))
     = [''BenchmarkStdCmd 1 1234 ns/op\<newline>'']
   \<and> run_err (exec working_system (initial_world\<lparr>flagAlloc := True\<rparr>)
        (compile_command default_settings (initial_world\<lparr>flagAlloc := True\<rparr>) [''x.go'']
           ''/tmp'')) = None
   \<and> stdout (snd (runBuild working_system default_settings ''BenchmarkX'' ''/tmp'' ''x.go''
                    (initial_world\<lparr>flagAlloc := True\<rparr>)))
     = [''BenchmarkX 1 1234 ns/op 1000 user-ns/op 56 B/op 7 allocs/op\<newline>'']
   \<and> stdout (snd (runBuild working_system default_settings ''BenchmarkX'' ''/tmp'' ''x.go''
                    initial_world))
     = [''BenchmarkX 1 1234 ns/op 1000 user-ns/op\<newline>'']
   \<and> take (length ''BenchmarkX'' + 3) ''BenchmarkX 1 1234 ns/op 1000 user-ns/op\<newline>''
     = ''BenchmarkX 1 ''
   \<and> run_err (exec working_system initial_world (size_build_command default_settings ''cmd/go''))
     = None
   \<and> stdout (snd (runBuild working_system default_settings ''BenchmarkCmdGoSize'' [] []
                    initial_world))
     = [''BenchmarkCmdGoSize 1 725317 text-bytes 10112 data-bytes 109888 bss-bytes 10 exe-bytes\<newline>'']"
proof -
  let ?wa = "initial_world\<lparr>flagAlloc := True\<rparr>"
  let ?ca = "compile_command default_settings ?wa [''x.go''] ''/tmp''"
  let ?cb = "compile_command default_settings initial_world [''x.go''] ''/tmp''"
  let ?w1 = "snd (Run working_system (size_build_command default_settings ''cmd/go'') initial_world)"
  let ?sz = "\<lparr>cmd_name = ''size'', cmd_args = [''_compilebenchout_''], cmd_dir = []\<rparr>"
  let ?f = "[''725317'', ''10112'', ''109888'', ''845317'', ''ce605'', ''x'']"
  have e: "run_err (exec working_system v c) = None" "run_wall (exec working_system v c) = 1234"
    "run_user (exec working_system v c) = 1000" for v c
    by (simp_all add: working_system_def)
  have i: "itoa 1234 = ''1234''" "itoa 1000 = ''1000''" "itoa 56 = ''56''" "itoa 7 = ''7''"
    "itoa 10 = ''10''"
    by (simp_all add: numeral_eval char_eval)
  have ca: "clear_flags_6g default_settings v = v" for v
    by (simp add: clear_flags_6g_def default_settings_def)
  have da: "cmd_dir ?ca = ''/tmp''"
    by (simp add: compile_command_def Let_def)
  have sc: "scan_memprof ''# TotalAlloc = 56\<newline># Mallocs = 7\<newline>'' = \<lparr>allocs = 7, bytes = 56\<rparr>"
    by (simp add: scan_memprof_def scan_line_def strings_eval ParseInt_eval char_eval)
  have rd: "fst (ReadFile working_system (''/tmp'' @ ''/_compilebench_.memprof'')
               (snd (Run working_system ?ca ?wa)))
      = ''# TotalAlloc = 56\<newline># Mallocs = 7\<newline>''"
    by (simp add: ReadFile_def working_system_def da)
  have cn: "\<lparr>allocs = 7, bytes = 56\<rparr>
      = scan_memprof (fst (ReadFile working_system (''/tmp'' @ ''/_compilebench_.memprof'')
               (snd (Run working_system ?ca ?wa))))"
    by (simp only: rd sc)
  note ta = records_follow_the_line_format
    [where sys = working_system and cfg = default_settings and w = ?wa and nm = "''BenchmarkX''"
       and dir = "''/tmp''" and gofile = "''x.go''" and gofiles = "[''x.go'']"
       and pkgdir = "''/tmp''" and ?w0.0 = ?wa and r = "exec working_system ?wa ?ca"
       and cnt = "\<lparr>allocs = 7, bytes = 56\<rparr>"]
  have ha: "''BenchmarkX'' \<noteq> ''BenchmarkStdCmd'' \<and> ''BenchmarkX'' \<noteq> ''BenchmarkCmdGoSize''
      \<and> ''BenchmarkX'' \<noteq> ''BenchmarkHelloSize''
      \<and> (''x.go'' \<noteq> [] \<and> [''x.go''] = [''x.go''] \<and> ''/tmp'' = ''/tmp''
          \<or> ''x.go'' = [] \<and> ''/tmp'' \<noteq> []
            \<and> build_Import working_system ?wa ''/tmp'' = Inr ([''x.go''], ''/tmp''))
      \<and> ?wa = clear_flags_6g default_settings ?wa
      \<and> exec working_system ?wa ?ca = exec working_system ?wa ?ca
      \<and> run_err (exec working_system ?wa ?ca) = None
      \<and> \<lparr>allocs = 7, bytes = 56\<rparr>
          = scan_memprof (fst (ReadFile working_system (''/tmp'' @ ''/_compilebench_.memprof'')
               (snd (Run working_system ?ca ?wa))))"
    using cn by (simp add: ca e)
  have ra: "stdout (snd (runBuild working_system default_settings ''BenchmarkX'' ''/tmp'' ''x.go'' ?wa))
      = [''BenchmarkX 1 1234 ns/op 1000 user-ns/op 56 B/op 7 allocs/op\<newline>'']"
    using mp [OF conjunct1 [OF conjunct2 [OF ta]] ha]
    by (simp add: e i spec_record_line_def newline_def initial_world_def)
  note tb = records_follow_the_line_format
    [where sys = working_system and cfg = default_settings and w = initial_world
       and nm = "''BenchmarkX''" and dir = "''/tmp''" and gofile = "''x.go''"
       and gofiles = "[''x.go'']" and pkgdir = "''/tmp''" and ?w0.0 = initial_world
       and r = "exec working_system initial_world ?cb" and cnt = "scan_memprof
          (fst (ReadFile working_system (''/tmp'' @ ''/_compilebench_.memprof'')
             (snd (Run working_system ?cb initial_world))))"]
  have hb: "''BenchmarkX'' \<noteq> ''BenchmarkStdCmd'' \<and> ''BenchmarkX'' \<noteq> ''BenchmarkCmdGoSize''
      \<and> ''BenchmarkX'' \<noteq> ''BenchmarkHelloSize''
      \<and> (''x.go'' \<noteq> [] \<and> [''x.go''] = [''x.go''] \<and> ''/tmp'' = ''/tmp''
          \<or> ''x.go'' = [] \<and> ''/tmp'' \<noteq> []
            \<and> build_Import working_system initial_world ''/tmp'' = Inr ([''x.go''], ''/tmp''))
      \<and> initial_world = clear_flags_6g default_settings initial_world
      \<and> exec working_system initial_world ?cb = exec working_system initial_world ?cb
      \<and> run_err (exec working_system initial_world ?cb) = None
      \<and> scan_memprof (fst (ReadFile working_system (''/tmp'' @ ''/_compilebench_.memprof'')
             (snd (Run working_system ?cb initial_world))))
          = scan_memprof (fst (ReadFile working_system (''/tmp'' @ ''/_compilebench_.memprof'')
               (snd (Run working_system ?cb initial_world))))"
    by (simp add: ca e)
  have rb: "stdout (snd (runBuild working_system default_settings ''BenchmarkX'' ''/tmp'' ''x.go''
                    initial_world))
      = [''BenchmarkX 1 1234 ns/op 1000 user-ns/op\<newline>'']"
    using mp [OF conjunct1 [OF conjunct2 [OF tb]] hb]
    by (simp add: e i spec_record_line_def newline_def initial_world_def)
  have mk: "take (length ''BenchmarkX'' + 3) ''BenchmarkX 1 1234 ns/op 1000 user-ns/op\<newline>''
      = ''BenchmarkX 1 ''"
    using conjunct1 [OF conjunct2 [OF conjunct2 [OF conjunct2 [OF conjunct2 [OF tb]]]]]
    by (simp only: rb) (simp add: initial_world_def)
  note tc = records_follow_the_line_format
    [where sys = working_system and cfg = default_settings and w = initial_world
       and nm = "''BenchmarkCmdGoSize''" and dir = "[]" and gofile = "[]" and path = "''cmd/go''"
       and ?w1.0 = ?w1 and sz = 10 and sr = "exec working_system ?w1 ?sz"
       and ?l0.0 = "''text data bss dec hex filename''"
       and ?l1.0 = "''725317 10112 109888 845317 ce605 x''" and ls = "[[]]" and f = ?f]
  have st: "Stat working_system ''_compilebenchout_'' ?w1 = (10, None)"
    by (simp add: Stat_def working_system_def)
  have ou: "run_output (exec working_system ?w1 ?sz)
      = ''text data bss dec hex filename\<newline>725317 10112 109888 845317 ce605 x\<newline>''"
    by (simp add: working_system_def)
  have sp: "Split (run_output (exec working_system ?w1 ?sz)) newline
      = ''text data bss dec hex filename'' # ''725317 10112 109888 845317 ce605 x'' # [[]]"
    by (simp only: ou) (simp add: newline_def)
  have fs: "?f = Fields ''725317 10112 109888 845317 ce605 x''"
    by (simp add: strings_eval)
  have hc: "(''BenchmarkCmdGoSize'' = ''BenchmarkCmdGoSize'' \<and> ''cmd/go'' = ''cmd/go''
        \<or> ''BenchmarkCmdGoSize'' = ''BenchmarkHelloSize''
          \<and> ''cmd/go'' = Join working_system (GOROOT working_system) ''test/helloworld.go'')
      \<and> run_err (exec working_system initial_world (size_build_command default_settings ''cmd/go''))
          = None
      \<and> ?w1 = ?w1
      \<and> Stat working_system ''_compilebenchout_'' ?w1 = (10, None)
      \<and> exec working_system ?w1 ?sz = exec working_system ?w1 ?sz
      \<and> run_err (exec working_system ?w1 ?sz) = None
      \<and> Split (run_output (exec working_system ?w1 ?sz)) newline
          = ''text data bss dec hex filename'' # ''725317 10112 109888 845317 ce605 x'' # [[]]
      \<and> ?f = Fields ''725317 10112 109888 845317 ce605 x''"
    using st sp fs by (simp only: e simp_thms)
  have hp: "\<not> HasPrefix ''text data bss dec hex filename'' ''__TEXT''"
    "Contains ''text data bss dec hex filename'' ''bss''"
    by (simp_all add: strings_eval)
  have rc: "stdout (snd (runBuild working_system default_settings ''BenchmarkCmdGoSize'' [] []
                    initial_world))
      = [''BenchmarkCmdGoSize 1 725317 text-bytes 10112 data-bytes 109888 bss-bytes 10 exe-bytes\<newline>'']"
    using mp [OF conjunct1 [OF conjunct2 [OF conjunct2 [OF tc]]] hc] hp
    by (simp add: i spec_record_line_def newline_def initial_world_def)
  have rd: "stdout (snd (runBuild working_system default_settings ''BenchmarkStdCmd'' [] [] initial_world))
      = [''BenchmarkStdCmd 1 1234 ns/op\<newline>'']"
    using mp [OF conjunct1 [OF tc] e(1)]
    by (simp add: e i spec_record_line_def newline_def initial_world_def)
  show ?thesis
    by (intro conjI e ra rb mk rc rd)
qed

text \<open>In the older file the name in the record is not the name of the benchmark:
  \<open>runBuild\<close> is called with the name in the table, \<open>BenchmarkTemplate\<close>, and its format
  puts \<open>Benchmark\<close> before it.\<close>

theorem older_record_name_is_prefixed_counterexample:
  "tests0 ! 0 = (''BenchmarkTemplate'', ''html/template'')
   \<and> stdout (snd (runBuild0 working_system default_settings ''BenchmarkTemplate'' ''html/template''
                    initial_world))
       = [''BenchmarkBenchmarkTemplate 1 1234 ns/op 56 B/op 7 allocs/op\<newline>'']
   \<and> spec_record_line ''BenchmarkTemplate''
         [(''1234'', ''ns/op''), (''56'', ''B/op''), (''7'', ''allocs/op'')] @ [newline]
       = ''BenchmarkTemplate 1 1234 ns/op 56 B/op 7 allocs/op\<newline>''
   \<and> take (length ''BenchmarkTemplate'' + 2)
         (hd (stdout (snd (runBuild0 working_system default_settings ''BenchmarkTemplate''
                             ''html/template'' initial_world))))
       = ''BenchmarkBenchmarkT''"
proof -
  let ?r = "runBuild0 working_system default_settings ''BenchmarkTemplate'' ''html/template''
              initial_world"
  have sc: "scan_memprof ''# TotalAlloc = 56\<newline># Mallocs = 7\<newline>'' = \<lparr>allocs = 7, bytes = 56\<rparr>"
    by (simp add: scan_memprof_def scan_line_def strings_eval ParseInt_eval char_eval)
  have a: "tests0 ! 0 = (''BenchmarkTemplate'', ''html/template'')"
    by (simp add: tests0_def)
  have b: "stdout (snd ?r) = [''BenchmarkBenchmarkTemplate 1 1234 ns/op 56 B/op 7 allocs/op\<newline>'']"
    by (simp add: older_eval report0_stdout sc spec_record_line_def working_system_def)
  have c: "spec_record_line ''BenchmarkTemplate''
         [(''1234'', ''ns/op''), (''56'', ''B/op''), (''7'', ''allocs/op'')] @ [newline]
       = ''BenchmarkTemplate 1 1234 ns/op 56 B/op 7 allocs/op\<newline>''"
    by (simp add: spec_record_line_def newline_def)
  have d: "take (length ''BenchmarkTemplate'' + 2) (hd (stdout (snd ?r))) = ''BenchmarkBenchmarkT''"
    by (simp only: b) simp
  show ?thesis
    by (intro conjI a b c d)
qed

section \<open>The output of the size tool\<close>

text \<open>Claim C3. For an output of the size tool of at least two lines: if the first line
  starts with \<open>__TEXT\<close> and the second has at least two fields, the record has the pairs
  text-bytes (the first field), data-bytes (the second field) and exe-bytes (the size of
  the executable as it was passed in), and no bss-bytes pair; if instead the first line
  contains \<open>bss\<close> and the second has at least three fields, the record has text-bytes,
  data-bytes and bss-bytes from the first three fields, and exe-bytes.\<close>

theorem size_report_yields_the_fields:
  "(length (Split out newline) \<ge> 2
      \<and> HasPrefix (Split out newline ! 0) ''__TEXT''
      \<and> length (Fields (Split out newline ! 1)) \<ge> 2
    \<longrightarrow> size_report nm info_Size out w
          = w\<lparr>stdout := stdout w @
               [spec_record_line nm
                  [(Fields (Split out newline ! 1) ! 0, ''text-bytes''),
                   (Fields (Split out newline ! 1) ! 1, ''data-bytes''),
                   (itoa info_Size, ''exe-bytes'')] @ [newline]]\<rparr>
        \<and> ''bss-bytes'' \<notin> snd ` set
               [(Fields (Split out newline ! 1) ! 0, ''text-bytes''),
                (Fields (Split out newline ! 1) ! 1, ''data-bytes''),
                (itoa info_Size, ''exe-bytes'')])
   \<and> (length (Split out newline) \<ge> 2
      \<and> \<not> HasPrefix (Split out newline ! 0) ''__TEXT''
      \<and> Contains (Split out newline ! 0) ''bss''
      \<and> length (Fields (Split out newline ! 1)) \<ge> 3
    \<longrightarrow> size_report nm info_Size out w
          = w\<lparr>stdout := stdout w @
               [spec_record_line nm
                  [(Fields (Split out newline ! 1) ! 0, ''text-bytes''),
                   (Fields (Split out newline ! 1) ! 1, ''data-bytes''),
                   (Fields (Split out newline ! 1) ! 2, ''bss-bytes''),
                   (itoa info_Size, ''exe-bytes'')] @ [newline]]\<rparr>)"
  by (simp add: size_report_def Let_def fmt_Printf_def spec_record_line_def newline_def)

theorem size_report_yields_the_fields_witness:
  "length (Split ''__TEXT __DATA __OBJC others dec hex\<newline>1290240 106496 0 4296040448 4297437184 100262000\<newline>'' newline) \<ge> 2
   \<and> HasPrefix (Split ''__TEXT __DATA __OBJC others dec hex\<newline>1290240 106496 0 4296040448 4297437184 100262000\<newline>'' newline ! 0) ''__TEXT''
   \<and> length (Fields (Split ''__TEXT __DATA __OBJC others dec hex\<newline>1290240 106496 0 4296040448 4297437184 100262000\<newline>'' newline ! 1)) \<ge> 2
   \<and> size_report ''BenchmarkHelloSize'' 1629620
         ''__TEXT __DATA __OBJC others dec hex\<newline>1290240 106496 0 4296040448 4297437184 100262000\<newline>''
         initial_world
       = initial_world\<lparr>stdout :=
           [''BenchmarkHelloSize 1 1290240 text-bytes 106496 data-bytes 1629620 exe-bytes\<newline>'']\<rparr>
   \<and> length (Split ''   text    data     bss     dec     hex filename\<newline> 725317   10112  109888  845317   ce605 _compilebenchout_\<newline>'' newline) \<ge> 2
   \<and> \<not> HasPrefix (Split ''   text    data     bss     dec     hex filename\<newline> 725317   10112  109888  845317   ce605 _compilebenchout_\<newline>'' newline ! 0) ''__TEXT''
   \<and> Contains (Split ''   text    data     bss     dec     hex filename\<newline> 725317   10112  109888  845317   ce605 _compilebenchout_\<newline>'' newline ! 0) ''bss''
   \<and> length (Fields (Split ''   text    data     bss     dec     hex filename\<newline> 725317   10112  109888  845317   ce605 _compilebenchout_\<newline>'' newline ! 1)) \<ge> 3
   \<and> size_report ''BenchmarkHelloSize'' 1629620
         ''   text    data     bss     dec     hex filename\<newline> 725317   10112  109888  845317   ce605 _compilebenchout_\<newline>''
         initial_world
       = initial_world\<lparr>stdout :=
           [''BenchmarkHelloSize 1 725317 text-bytes 10112 data-bytes 109888 bss-bytes 1629620 exe-bytes\<newline>'']\<rparr>"
proof -
  let ?a = "''__TEXT __DATA __OBJC others dec hex\<newline>1290240 106496 0 4296040448 4297437184 100262000\<newline>''"
  let ?b = "''   text    data     bss     dec     hex filename\<newline> 725317   10112  109888  845317   ce605 _compilebenchout_\<newline>''"
  have i: "itoa 1629620 = ''1629620''"
    by (simp add: numeral_eval char_eval)
  have ha: "length (Split ?a newline) \<ge> 2 \<and> HasPrefix (Split ?a newline ! 0) ''__TEXT''
        \<and> length (Fields (Split ?a newline ! 1)) \<ge> 2"
    by (simp add: strings_eval)
  have hb: "length (Split ?b newline) \<ge> 2 \<and> \<not> HasPrefix (Split ?b newline ! 0) ''__TEXT''
        \<and> Contains (Split ?b newline ! 0) ''bss'' \<and> length (Fields (Split ?b newline ! 1)) \<ge> 3"
    by (simp add: strings_eval)
  have ra: "size_report ''BenchmarkHelloSize'' 1629620 ?a initial_world
       = initial_world\<lparr>stdout :=
           [''BenchmarkHelloSize 1 1290240 text-bytes 106496 data-bytes 1629620 exe-bytes\<newline>'']\<rparr>"
    using mp [OF conjunct1 [OF size_report_yields_the_fields
                 [where out = ?a and nm = "''BenchmarkHelloSize''" and info_Size = 1629620
                    and w = initial_world]] ha]
    by (simp add: strings_eval i spec_record_line_def initial_world_def)
  have rb: "size_report ''BenchmarkHelloSize'' 1629620 ?b initial_world
       = initial_world\<lparr>stdout :=
           [''BenchmarkHelloSize 1 725317 text-bytes 10112 data-bytes 109888 bss-bytes 1629620 exe-bytes\<newline>'']\<rparr>"
    using mp [OF conjunct2 [OF size_report_yields_the_fields
                 [where out = ?b and nm = "''BenchmarkHelloSize''" and info_Size = 1629620
                    and w = initial_world]] hb]
    by (simp add: strings_eval i spec_record_line_def initial_world_def)
  show ?thesis
    using ha hb ra rb by (simp only: simp_thms)
qed

text \<open>Claim C10. The fields of the second line are not parsed as numbers: once the header
  has one of the two shapes and there are enough fields, the tokens are copied into the
  record as they are, whatever they are.\<close>

theorem size_report_copies_tokens_verbatim:
  "(length (Split out newline) \<ge> 2
      \<and> HasPrefix (Split out newline ! 0) ''__TEXT''
      \<and> Fields (Split out newline ! 1) = t # d # others
    \<longrightarrow> stdout (size_report nm info_Size out w)
          = stdout w @ [nm @ '' 1 '' @ t @ '' text-bytes '' @ d @ '' data-bytes ''
                         @ itoa info_Size @ '' exe-bytes\<newline>''])
   \<and> (length (Split out newline) \<ge> 2
      \<and> \<not> HasPrefix (Split out newline ! 0) ''__TEXT''
      \<and> Contains (Split out newline ! 0) ''bss''
      \<and> Fields (Split out newline ! 1) = t # d # s # others
    \<longrightarrow> stdout (size_report nm info_Size out w)
          = stdout w @ [nm @ '' 1 '' @ t @ '' text-bytes '' @ d @ '' data-bytes '' @ s
                         @ '' bss-bytes '' @ itoa info_Size @ '' exe-bytes\<newline>''])"
  by (simp add: size_report_def Let_def)

theorem size_report_copies_tokens_verbatim_witness:
  "length (Split ''__TEXT\<newline>n/a ??\<newline>'' newline) \<ge> 2
   \<and> HasPrefix (Split ''__TEXT\<newline>n/a ??\<newline>'' newline ! 0) ''__TEXT''
   \<and> Fields (Split ''__TEXT\<newline>n/a ??\<newline>'' newline ! 1) = ''n/a'' # ''??'' # []
   \<and> snd (ParseInt ''n/a'') = Some ErrSyntax \<and> snd (ParseInt ''??'') = Some ErrSyntax
   \<and> stdout (size_report ''BenchmarkHelloSize'' 42 ''__TEXT\<newline>n/a ??\<newline>'' initial_world)
       = [''BenchmarkHelloSize 1 n/a text-bytes ?? data-bytes 42 exe-bytes\<newline>'']
   \<and> length (Split ''bss\<newline>- x 0x\<newline>'' newline) \<ge> 2
   \<and> \<not> HasPrefix (Split ''bss\<newline>- x 0x\<newline>'' newline ! 0) ''__TEXT''
   \<and> Contains (Split ''bss\<newline>- x 0x\<newline>'' newline ! 0) ''bss''
   \<and> Fields (Split ''bss\<newline>- x 0x\<newline>'' newline ! 1) = ''-'' # ''x'' # ''0x'' # []
   \<and> stdout (size_report ''BenchmarkHelloSize'' 42 ''bss\<newline>- x 0x\<newline>'' initial_world)
       = [''BenchmarkHelloSize 1 - text-bytes x data-bytes 0x bss-bytes 42 exe-bytes\<newline>'']"
proof -
  let ?a = "''__TEXT\<newline>n/a ??\<newline>''"
  let ?b = "''bss\<newline>- x 0x\<newline>''"
  have ha: "length (Split ?a newline) \<ge> 2 \<and> HasPrefix (Split ?a newline ! 0) ''__TEXT''
        \<and> Fields (Split ?a newline ! 1) = ''n/a'' # ''??'' # []"
    by (simp add: strings_eval)
  have hb: "length (Split ?b newline) \<ge> 2 \<and> \<not> HasPrefix (Split ?b newline ! 0) ''__TEXT''
        \<and> Contains (Split ?b newline ! 0) ''bss''
        \<and> Fields (Split ?b newline ! 1) = ''-'' # ''x'' # ''0x'' # []"
    by (simp add: strings_eval)
  have p: "snd (ParseInt ''n/a'') = Some ErrSyntax \<and> snd (ParseInt ''??'') = Some ErrSyntax"
    by (simp add: ParseInt_eval char_eval)
  have i: "itoa 42 = ''42''"
    by (simp add: numeral_eval char_eval)
  have ra: "stdout (size_report ''BenchmarkHelloSize'' 42 ?a initial_world)
       = [''BenchmarkHelloSize 1 n/a text-bytes ?? data-bytes 42 exe-bytes\<newline>'']"
    using mp [OF conjunct1 [OF size_report_copies_tokens_verbatim
                 [where out = ?a and t = "''n/a''" and d = "''??''" and others = "[]"
                    and nm = "''BenchmarkHelloSize''" and info_Size = 42 and w = initial_world]] ha]
    by (simp add: i initial_world_def)
  have rb: "stdout (size_report ''BenchmarkHelloSize'' 42 ?b initial_world)
       = [''BenchmarkHelloSize 1 - text-bytes x data-bytes 0x bss-bytes 42 exe-bytes\<newline>'']"
    using mp [OF conjunct2 [OF size_report_copies_tokens_verbatim
                 [where out = ?b and t = "''-''" and d = "''x''" and s = "''0x''" and others = "[]"
                    and nm = "''BenchmarkHelloSize''" and info_Size = 42 and w = initial_world]] hb]
    by (simp add: i initial_world_def)
  show ?thesis
    using ha hb p ra rb by (simp only: simp_thms)
qed

text \<open>Claim C4. With fewer than two lines there is no record and the warning
  \<open>not enough output from size\<close> is logged. With a header of neither shape (here the first
  lines of the size tool's other output format) \<open>size_report\<close> changes nothing: no record, and
  no warning either, which the claim expects.\<close>

theorem size_report_unrecognized_header_is_silent:
  "size_report ''BenchmarkHelloSize'' 1000
      ''_compilebenchout_  :\<newline>section size addr\<newline>.text 4096 4198400\<newline>'' w = w
   \<and> stdout (size_report ''BenchmarkHelloSize'' 1000 ''no line feed'' w) = stdout w
   \<and> stderr (size_report ''BenchmarkHelloSize'' 1000 ''no line feed'' w)
       = stderr w @ [''compilebench: not enough output from size: no line feed\<newline>'']"
  by (simp add: size_report_def Let_def strings_eval log_Printf_def log_Print_def)

section \<open>Which benchmarks run\<close>

lemma run_tests_none_selected:
  assumes "runRE cfg = Some re" and "\<forall>tt\<in>set ts. \<not> re (test_name tt)"
  shows "run_tests sys cfg ts w = (Returned, w)"
  using assms by (induction ts) simp_all

lemma run_count_none_selected:
  assumes "runRE cfg = Some re" and "\<forall>tt\<in>set tests. \<not> re (test_name tt)"
  shows "run_count sys cfg k w = (Returned, w)"
  using assms by (induction k) (simp_all add: run_tests_none_selected)

text \<open>Claim C7. In the loop of \<open>main\<close> a benchmark is skipped, the loop going on with the
  world as it was (no process started, nothing printed), exactly when a \<open>-run\<close> expression is
  set and does not match its name, or it is long-running and \<open>-short\<close> is set; otherwise
  \<open>runBuild\<close> is called for it. With an expression that matches none of the benchmarks of
  the table the loops return with the world unchanged: no record, and \<open>main\<close> goes on to its
  end. A long-running benchmark that the expression does not exclude runs when \<open>-short\<close> is
  not set.\<close>

theorem benchmark_skipped_exactly_when_filtered_or_long:
  "(((\<exists>re. runRE cfg = Some re \<and> \<not> re (test_name tt)) \<or> (test_long tt \<and> flagShort cfg))
      \<longrightarrow> run_tests sys cfg (tt # rest) w = run_tests sys cfg rest w)
   \<and> (\<not> ((\<exists>re. runRE cfg = Some re \<and> \<not> re (test_name tt)) \<or> (test_long tt \<and> flagShort cfg))
      \<longrightarrow> run_tests sys cfg (tt # rest) w
            = (case runBuild sys cfg (test_name tt) (test_dir tt) [] w of
                 (Exited code, w') \<Rightarrow> (Exited code, w')
               | (Returned, w') \<Rightarrow> run_tests sys cfg rest w'))
   \<and> ((\<exists>re. runRE cfg = Some re \<and> (\<forall>t\<in>set tests. \<not> re (test_name t)))
      \<longrightarrow> main_loop sys cfg w = (Returned, w))
   \<and> (test_long tt \<and> \<not> flagShort cfg
        \<and> (runRE cfg = None \<or> (\<exists>re. runRE cfg = Some re \<and> re (test_name tt)))
      \<longrightarrow> run_tests sys cfg (tt # rest) w
            = (case runBuild sys cfg (test_name tt) (test_dir tt) [] w of
                 (Exited code, w') \<Rightarrow> (Exited code, w')
               | (Returned, w') \<Rightarrow> run_tests sys cfg rest w'))"
  by (auto simp: main_loop_def run_count_none_selected split: option.splits)

theorem benchmark_skipped_exactly_when_filtered_or_long_witness:
  "runRE (default_settings\<lparr>runRE := Some (\<lambda>s. s = ''BenchmarkNone'')\<rparr>) = Some (\<lambda>s. s = ''BenchmarkNone'')
   \<and> test_name (tests ! 0) \<noteq> ''BenchmarkNone''
   \<and> run_tests failing_system (default_settings\<lparr>runRE := Some (\<lambda>s. s = ''BenchmarkNone'')\<rparr>)
        (tests ! 0 # []) initial_world
      = (Returned, initial_world)
   \<and> main_loop failing_system (default_settings\<lparr>runRE := Some (\<lambda>s. s = ''BenchmarkNone'')\<rparr>)
        initial_world
      = (Returned, initial_world)
   \<and> test_long (tests ! 4) \<and> flagShort (default_settings\<lparr>flagShort := True\<rparr>)
   \<and> run_tests failing_system (default_settings\<lparr>flagShort := True\<rparr>) (tests ! 4 # []) initial_world
      = (Returned, initial_world)
   \<and> \<not> flagShort default_settings \<and> runRE default_settings = None
   \<and> started (snd (run_tests failing_system default_settings (tests ! 4 # []) initial_world))
      = [\<lparr>cmd_name = ''go'', cmd_args = [''build'', ''-a'', ''std'', ''cmd''], cmd_dir = ''/go/src''\<rparr>]"
proof -
  let ?re = "\<lambda>s. s = ''BenchmarkNone''"
  let ?cfg1 = "default_settings\<lparr>runRE := Some ?re\<rparr>"
  let ?cfg2 = "default_settings\<lparr>flagShort := True\<rparr>"
  have h1: "runRE ?cfg1 = Some ?re"
    by simp
  have h2: "test_name (tests ! 0) \<noteq> ''BenchmarkNone''"
    by (simp add: tests_def)
  have h3: "\<forall>t\<in>set tests. \<not> ?re (test_name t)"
    by (simp add: tests_def)
  have h4: "test_long (tests ! 4) \<and> flagShort ?cfg2"
    by (simp add: tests_def)
  have h5: "\<not> flagShort default_settings \<and> runRE default_settings = None"
    by (simp add: default_settings_def)
  note a = benchmark_skipped_exactly_when_filtered_or_long
    [where cfg = ?cfg1 and tt = "tests ! 0" and rest = "[]" and sys = failing_system
       and w = initial_world]
  note b = benchmark_skipped_exactly_when_filtered_or_long
    [where cfg = ?cfg2 and tt = "tests ! 4" and rest = "[]" and sys = failing_system
       and w = initial_world]
  note c = benchmark_skipped_exactly_when_filtered_or_long
    [where cfg = default_settings and tt = "tests ! 4" and rest = "[]" and sys = failing_system
       and w = initial_world]
  have r1: "run_tests failing_system ?cfg1 (tests ! 0 # []) initial_world = (Returned, initial_world)"
    using mp [OF conjunct1 [OF a]] h1 h2 by simp
  have r2: "main_loop failing_system ?cfg1 initial_world = (Returned, initial_world)"
    using mp [OF conjunct1 [OF conjunct2 [OF conjunct2 [OF a]]]] h1 h3 by blast
  have r3: "run_tests failing_system ?cfg2 (tests ! 4 # []) initial_world = (Returned, initial_world)"
    using mp [OF conjunct1 [OF b]] h4 by simp
  have "run_tests failing_system default_settings (tests ! 4 # []) initial_world
      = (case runBuild failing_system default_settings (test_name (tests ! 4)) (test_dir (tests ! 4))
                [] initial_world of
           (Exited code, w') \<Rightarrow> (Exited code, w')
         | (Returned, w') \<Rightarrow> run_tests failing_system default_settings [] w')"
    using mp [OF conjunct2 [OF conjunct2 [OF conjunct2 [OF c]]]] h4 h5 by simp
  then have r4: "started (snd (run_tests failing_system default_settings (tests ! 4 # []) initial_world))
      = [\<lparr>cmd_name = ''go'', cmd_args = [''build'', ''-a'', ''std'', ''cmd''], cmd_dir = ''/go/src''\<rparr>]"
    by (simp add: tests_def runBuild_def runStdCmd_def runCmd_def stdcmd_command_def
          CombinedOutput_def log_Printf_def log_Print_def failing_system_def default_settings_def
          initial_world_def Let_def)
  show ?thesis
    using h1 h2 h4 h5 r1 r2 r3 r4 by (simp only: simp_thms)
qed

section \<open>A build that fails\<close>

lemma runBuild_returns:
  assumes "tt \<in> set tests"
  shows "fst (runBuild sys cfg (test_name tt) (test_dir tt) [] w) = Returned"
proof -
  have "nm = ''BenchmarkStdCmd'' \<or> nm = ''BenchmarkCmdGoSize'' \<or> nm = ''BenchmarkHelloSize'' \<or> dir \<noteq> []
      \<Longrightarrow> fst (runBuild sys cfg nm dir [] w) = Returned" for nm dir
    by (auto simp: runBuild_def split: sum.splits)
  moreover have "test_name tt = ''BenchmarkStdCmd'' \<or> test_name tt = ''BenchmarkCmdGoSize''
      \<or> test_name tt = ''BenchmarkHelloSize'' \<or> test_dir tt \<noteq> []"
    using assms by (auto simp: tests_def)
  ultimately show ?thesis
    by blast
qed

lemma run_tests_returns:
  "set ts \<subseteq> set tests \<Longrightarrow> fst (run_tests sys cfg ts w) = Returned"
proof (induction ts arbitrary: w)
  case Nil
  show ?case by simp
next
  case (Cons tt ts)
  then have "fst (runBuild sys cfg (test_name tt) (test_dir tt) [] w) = Returned"
    by (simp add: runBuild_returns)
  then obtain w' where "runBuild sys cfg (test_name tt) (test_dir tt) [] w = (Returned, w')"
    by (cases "runBuild sys cfg (test_name tt) (test_dir tt) [] w") simp
  with Cons show ?case
    by simp
qed

lemma run_count_returns: "fst (run_count sys cfg k w) = Returned"
proof (induction k arbitrary: w)
  case 0
  show ?case by simp
next
  case (Suc k)
  have "fst (run_tests sys cfg tests w) = Returned"
    by (simp add: run_tests_returns)
  then obtain w' where "run_tests sys cfg tests w = (Returned, w')"
    by (cases "run_tests sys cfg tests w") simp
  with Suc show ?case
    by simp
qed

lemma compile_fails:
  assumes "run_err (exec sys (clear_flags_6g cfg w)
             (compile_command cfg (clear_flags_6g cfg w) gofiles pkgdir)) = Some err"
  shows "compile sys cfg nm gofiles pkgdir w
       = log_Print (nm @ '': '' @ err)
           (snd (Run sys (compile_command cfg (clear_flags_6g cfg w) gofiles pkgdir)
                  (clear_flags_6g cfg w)))"
  using assms by (simp add: compile_def Let_def case_prod_beta log_Printf_def)

text \<open>Claim C5, as amended: in \<open>main.go\<close>. When the build of a benchmark fails, be it the
  compiler started by \<open>runBuild\<close>, \<open>go build\<close> of \<open>std cmd\<close> or \<open>go build\<close> of the executable
  to measure, nothing is added to standard output and the failure is logged: for the
  compiler the line \<open><name>: <error>\<close> after the compiler's own output, which went to
  standard error; for \<open>std cmd\<close> name, error and the captured output; for the executable the
  error after the output of \<open>go build\<close>. The loop then goes on with the next benchmark, and
  the loops of \<open>main\<close> return whatever fails.\<close>

theorem failed_build_is_logged_and_skipped:
  "(run_err (exec sys (clear_flags_6g cfg w)
       (compile_command cfg (clear_flags_6g cfg w) gofiles pkgdir)) = Some err
     \<longrightarrow> stdout (compile sys cfg nm gofiles pkgdir w) = stdout w
       \<and> stderr (compile sys cfg nm gofiles pkgdir w)
           = stderr (log_Print (nm @ '': '' @ err)
               (w\<lparr>stderr := stderr w @
                  [run_output (exec sys (clear_flags_6g cfg w)
                     (compile_command cfg (clear_flags_6g cfg w) gofiles pkgdir))]\<rparr>)))
   \<and> (run_err (exec sys w (stdcmd_command sys cfg)) = Some err
     \<longrightarrow> stdout (runStdCmd sys cfg w) = stdout w
       \<and> stderr (runStdCmd sys cfg w)
           = stderr (log_Print (''BenchmarkStdCmd: '' @ err @ [newline]
                       @ run_output (exec sys w (stdcmd_command sys cfg))) w))
   \<and> (run_err (exec sys w (size_build_command cfg path)) = Some err
     \<longrightarrow> stdout (runSize sys cfg nm path w) = stdout w
       \<and> stderr (runSize sys cfg nm path w)
           = stderr (log_Print err
               (w\<lparr>stderr := stderr w @ [run_output (exec sys w (size_build_command cfg path))]\<rparr>)))
   \<and> (tt \<in> set tests \<and> \<not> (test_long tt \<and> flagShort cfg)
        \<and> (runRE cfg = None \<or> (\<exists>re. runRE cfg = Some re \<and> re (test_name tt)))
     \<longrightarrow> run_tests sys cfg (tt # rest) w
           = run_tests sys cfg rest (snd (runBuild sys cfg (test_name tt) (test_dir tt) [] w)))
   \<and> fst (main_loop sys cfg w) = Returned"
proof (intro conjI impI)
  assume a: "run_err (exec sys (clear_flags_6g cfg w)
       (compile_command cfg (clear_flags_6g cfg w) gofiles pkgdir)) = Some err"
  show "stdout (compile sys cfg nm gofiles pkgdir w) = stdout w"
    by (simp add: compile_fails [OF a])
  show "stderr (compile sys cfg nm gofiles pkgdir w)
           = stderr (log_Print (nm @ '': '' @ err)
               (w\<lparr>stderr := stderr w @
                  [run_output (exec sys (clear_flags_6g cfg w)
                     (compile_command cfg (clear_flags_6g cfg w) gofiles pkgdir))]\<rparr>))"
    by (simp add: compile_fails [OF a] log_Print_def)
next
  assume a: "run_err (exec sys w (stdcmd_command sys cfg)) = Some err"
  then show "stdout (runStdCmd sys cfg w) = stdout w"
    by (simp add: runStdCmd_def runCmd_def case_prod_beta)
  from a show "stderr (runStdCmd sys cfg w)
           = stderr (log_Print (''BenchmarkStdCmd: '' @ err @ [newline]
                       @ run_output (exec sys w (stdcmd_command sys cfg))) w)"
    by (simp add: runStdCmd_def runCmd_def case_prod_beta log_Printf_def log_Print_def newline_def)
next
  assume a: "run_err (exec sys w (size_build_command cfg path)) = Some err"
  then show "stdout (runSize sys cfg nm path w) = stdout w"
    by (simp add: runSize_def case_prod_beta)
  from a show "stderr (runSize sys cfg nm path w)
           = stderr (log_Print err
               (w\<lparr>stderr := stderr w @ [run_output (exec sys w (size_build_command cfg path))]\<rparr>))"
    by (simp add: runSize_def case_prod_beta log_Print_def)
next
  assume a: "tt \<in> set tests \<and> \<not> (test_long tt \<and> flagShort cfg)
        \<and> (runRE cfg = None \<or> (\<exists>re. runRE cfg = Some re \<and> re (test_name tt)))"
  then have "fst (runBuild sys cfg (test_name tt) (test_dir tt) [] w) = Returned"
    by (simp add: runBuild_returns)
  then obtain w' where "runBuild sys cfg (test_name tt) (test_dir tt) [] w = (Returned, w')"
    by (cases "runBuild sys cfg (test_name tt) (test_dir tt) [] w") simp
  with a show "run_tests sys cfg (tt # rest) w
           = run_tests sys cfg rest (snd (runBuild sys cfg (test_name tt) (test_dir tt) [] w))"
    by auto
next
  show "fst (main_loop sys cfg w) = Returned"
    by (simp add: main_loop_def run_count_returns)
qed

theorem failed_build_is_logged_and_skipped_witness:
  "run_err (exec failing_system (clear_flags_6g default_settings initial_world)
       (compile_command default_settings (clear_flags_6g default_settings initial_world)
          [''a.go''] ''/go/src/unicode'')) = Some ''exit status 2''
   \<and> stdout (compile failing_system default_settings ''BenchmarkUnicode'' [''a.go'']
         ''/go/src/unicode'' initial_world) = []
   \<and> stderr (compile failing_system default_settings ''BenchmarkUnicode'' [''a.go'']
         ''/go/src/unicode'' initial_world)
       = [''syntax error'', ''compilebench: BenchmarkUnicode: exit status 2\<newline>'']
   \<and> run_err (exec failing_system initial_world (stdcmd_command failing_system default_settings))
       = Some ''exit status 2''
   \<and> stdout (runStdCmd failing_system default_settings initial_world) = []
   \<and> stderr (runStdCmd failing_system default_settings initial_world)
       = [''compilebench: BenchmarkStdCmd: exit status 2\<newline>syntax error\<newline>'']
   \<and> run_err (exec failing_system initial_world (size_build_command default_settings ''cmd/go''))
       = Some ''exit status 2''
   \<and> stdout (runSize failing_system default_settings ''BenchmarkCmdGoSize'' ''cmd/go'' initial_world) = []
   \<and> stderr (runSize failing_system default_settings ''BenchmarkCmdGoSize'' ''cmd/go'' initial_world)
       = [''syntax error'', ''compilebench: exit status 2\<newline>'']
   \<and> tests ! 1 \<in> set tests
   \<and> run_tests failing_system default_settings (tests ! 1 # drop 2 tests) initial_world
       = run_tests failing_system default_settings (drop 2 tests)
           (snd (runBuild failing_system default_settings (test_name (tests ! 1))
                   (test_dir (tests ! 1)) [] initial_world))
   \<and> fst (main_loop failing_system default_settings initial_world) = Returned"
proof -
  note t = failed_build_is_logged_and_skipped
    [where sys = failing_system and cfg = default_settings and w = initial_world
       and gofiles = "[''a.go'']" and pkgdir = "''/go/src/unicode''" and err = "''exit status 2''"
       and nm = "''BenchmarkUnicode''" and path = "''cmd/go''" and tt = "tests ! 1"
       and rest = "drop 2 tests"]
  note t2 = failed_build_is_logged_and_skipped
    [where sys = failing_system and cfg = default_settings and w = initial_world
       and err = "''exit status 2''" and nm = "''BenchmarkCmdGoSize''" and path = "''cmd/go''"]
  have h1: "run_err (exec failing_system (clear_flags_6g default_settings initial_world)
       (compile_command default_settings (clear_flags_6g default_settings initial_world)
          [''a.go''] ''/go/src/unicode'')) = Some ''exit status 2''"
    by (simp add: failing_system_def)
  have h2: "run_err (exec failing_system initial_world (stdcmd_command failing_system default_settings))
       = Some ''exit status 2''"
    by (simp add: failing_system_def)
  have h3: "run_err (exec failing_system initial_world (size_build_command default_settings ''cmd/go''))
       = Some ''exit status 2''"
    by (simp add: failing_system_def)
  have h4: "tests ! 1 \<in> set tests"
    by (simp add: tests_def)
  have h5: "\<not> (test_long (tests ! 1) \<and> flagShort default_settings) \<and> runRE default_settings = None"
    by (simp add: tests_def default_settings_def)
  have o: "run_output (exec failing_system v c) = ''syntax error''" for v c
    by (simp add: failing_system_def)
  have r1: "stdout (compile failing_system default_settings ''BenchmarkUnicode'' [''a.go'']
         ''/go/src/unicode'' initial_world) = []
     \<and> stderr (compile failing_system default_settings ''BenchmarkUnicode'' [''a.go'']
         ''/go/src/unicode'' initial_world)
       = [''syntax error'', ''compilebench: BenchmarkUnicode: exit status 2\<newline>'']"
    using mp [OF conjunct1 [OF t] h1]
    by (simp add: o log_Print_def initial_world_def newline_def)
  have r2: "stdout (runStdCmd failing_system default_settings initial_world) = []
     \<and> stderr (runStdCmd failing_system default_settings initial_world)
       = [''compilebench: BenchmarkStdCmd: exit status 2\<newline>syntax error\<newline>'']"
    using mp [OF conjunct1 [OF conjunct2 [OF t]] h2]
    by (simp add: o log_Print_def initial_world_def newline_def)
  have r3: "stdout (runSize failing_system default_settings ''BenchmarkCmdGoSize'' ''cmd/go'' initial_world) = []
     \<and> stderr (runSize failing_system default_settings ''BenchmarkCmdGoSize'' ''cmd/go'' initial_world)
       = [''syntax error'', ''compilebench: exit status 2\<newline>'']"
    using mp [OF conjunct1 [OF conjunct2 [OF conjunct2 [OF t2]]] h3]
    by (simp add: o log_Print_def initial_world_def newline_def)
  have r4: "run_tests failing_system default_settings (tests ! 1 # drop 2 tests) initial_world
       = run_tests failing_system default_settings (drop 2 tests)
           (snd (runBuild failing_system default_settings (test_name (tests ! 1))
                   (test_dir (tests ! 1)) [] initial_world))"
    using mp [OF conjunct1 [OF conjunct2 [OF conjunct2 [OF conjunct2 [OF t]]]]] h4 h5 by blast
  have r5: "fst (main_loop failing_system default_settings initial_world) = Returned"
    using conjunct2 [OF conjunct2 [OF conjunct2 [OF conjunct2 [OF t]]]] .
  show ?thesis
    using h1 h2 h3 h4 r1 r2 r3 r4 r5 by (simp only: simp_thms)
qed

text \<open>The older file ends the process at the first build that fails: of its three
  benchmarks only the first is started, and the record of none is printed. In \<open>main.go\<close> the
  log line of a failed compilation does not hold the compiler's output.\<close>

theorem older_build_failure_ends_the_run_counterexample:
  "length tests0 = 3
   \<and> run_err (exec failing_system initial_world
        (timing_command0 default_settings [''a.go''] ''/go/src/html/template'')) = Some ''exit status 2''
   \<and> fst (run_tests0 failing_system default_settings tests0 initial_world) = Exited 1
   \<and> started (snd (run_tests0 failing_system default_settings tests0 initial_world))
       = [timing_command0 default_settings [''a.go''] ''/go/src/html/template'']
   \<and> stdout (snd (run_tests0 failing_system default_settings tests0 initial_world)) = []
   \<and> stderr (snd (run_tests0 failing_system default_settings tests0 initial_world))
       = [''compilebench: BenchmarkTemplate: exit status 2\<newline>syntax error\<newline>'']
   \<and> stderr (compile failing_system default_settings ''BenchmarkTemplate'' [''a.go'']
         ''/go/src/html/template'' initial_world)
       = [''syntax error'', ''compilebench: BenchmarkTemplate: exit status 2\<newline>'']"
  by (simp add: tests0_def runBuild0_def timing_command0_def compile_def compile_command_def
        clear_flags_6g_def failing_system_def strings_eval world_eval)

section \<open>A memory profile that is not there\<close>

lemma scan_memprof_empty: "scan_memprof [] = \<lparr>allocs = 0, bytes = 0\<rparr>"
  by (simp add: scan_memprof_def scan_line_def strings_eval)

lemma stderr_log_Print [simp]: "stderr (log_Print msg w) = stderr w @ [''compilebench: '' @ msg @ (if msg = [] \<or> last msg \<noteq> newline then [newline] else [])]"
  by (simp add: log_Print_def)

lemma stderr_copy_cpuprofile: "set (stderr w) \<subseteq> set (stderr (copy_cpuprofile sys pkgdir w))"
  by (auto simp: copy_cpuprofile_def Let_def case_prod_beta ReadFile_def split: option.splits)

lemma read_memprofile_missing:
  assumes "flagAlloc w" and "files w (resolve sys (pkgdir @ ''/_compilebench_.memprof'')) = None"
  shows "fst (read_memprofile sys pkgdir w) = \<lparr>allocs = 0, bytes = 0\<rparr>"
    and "''compilebench: cannot find memory profile after compilation\<newline>''
           \<in> set (stderr (snd (read_memprofile sys pkgdir w)))"
  using assms
  by (auto simp: read_memprofile_def Let_def case_prod_beta ReadFile_def scan_memprof_empty
        newline_def split: option.splits)

text \<open>Claim C6, as amended: in \<open>main.go\<close>. If the compilation succeeds with \<open>-alloc\<close> set
  (and a compiler other than \<open>6g\<close>, for which the flag is switched off) and the memory
  profile cannot be read afterwards, the warning
  \<open>cannot find memory profile after compilation\<close> is logged, the record is printed all the
  same with 0 for both allocation counters, and \<open>runBuild\<close> returns.\<close>

theorem missing_profile_is_a_warning:
  "(flagAlloc w \<and> \<not> is6g cfg
      \<and> run_err (exec sys w (compile_command cfg w gofiles pkgdir)) = None
      \<and> run_files (exec sys w (compile_command cfg w gofiles pkgdir))
           (resolve sys (pkgdir @ ''/_compilebench_.memprof'')) = None
    \<longrightarrow> stdout (compile sys cfg nm gofiles pkgdir w)
          = stdout w @
            [spec_record_line nm
               [(itoa (run_wall (exec sys w (compile_command cfg w gofiles pkgdir))), ''ns/op''),
                (itoa (run_user (exec sys w (compile_command cfg w gofiles pkgdir))), ''user-ns/op''),
                (itoa 0, ''B/op''), (itoa 0, ''allocs/op'')] @ [newline]]
        \<and> ''compilebench: cannot find memory profile after compilation\<newline>''
            \<in> set (stderr (compile sys cfg nm gofiles pkgdir w)))
   \<and> (nm \<noteq> ''BenchmarkStdCmd'' \<and> nm \<noteq> ''BenchmarkCmdGoSize'' \<and> nm \<noteq> ''BenchmarkHelloSize''
      \<and> dir \<noteq> [] \<and> build_Import sys w dir = Inr (gofiles, pkgdir)
    \<longrightarrow> runBuild sys cfg nm dir [] w = (Returned, compile sys cfg nm gofiles pkgdir w))"
proof (intro conjI impI)
  let ?c = "compile_command cfg w gofiles pkgdir"
  let ?w1 = "snd (Run sys ?c w)"
  assume a: "flagAlloc w \<and> \<not> is6g cfg \<and> run_err (exec sys w ?c) = None
      \<and> run_files (exec sys w ?c) (resolve sys (pkgdir @ ''/_compilebench_.memprof'')) = None"
  then have w0: "clear_flags_6g cfg w = w"
    by (simp add: clear_flags_6g_def)
  from a have f: "flagAlloc ?w1" "files ?w1 (resolve sys (pkgdir @ ''/_compilebench_.memprof'')) = None"
    by simp_all
  note m = read_memprofile_missing [OF f]
  from a w0 m(1) show "stdout (compile sys cfg nm gofiles pkgdir w)
          = stdout w @
            [spec_record_line nm
               [(itoa (run_wall (exec sys w ?c)), ''ns/op''),
                (itoa (run_user (exec sys w ?c)), ''user-ns/op''),
                (itoa 0, ''B/op''), (itoa 0, ''allocs/op'')] @ [newline]]"
    by (simp add: compile_stdout Let_def)
  have "stderr (compile sys cfg nm gofiles pkgdir w)
      = stderr (copy_cpuprofile sys pkgdir (snd (read_memprofile sys pkgdir ?w1)))"
    using a w0 by (simp add: compile_def Let_def case_prod_beta)
  with m(2) stderr_copy_cpuprofile [of "snd (read_memprofile sys pkgdir ?w1)" sys pkgdir]
  show "''compilebench: cannot find memory profile after compilation\<newline>''
            \<in> set (stderr (compile sys cfg nm gofiles pkgdir w))"
    by auto
next
  assume "nm \<noteq> ''BenchmarkStdCmd'' \<and> nm \<noteq> ''BenchmarkCmdGoSize'' \<and> nm \<noteq> ''BenchmarkHelloSize''
      \<and> dir \<noteq> [] \<and> build_Import sys w dir = Inr (gofiles, pkgdir)"
  then show "runBuild sys cfg nm dir [] w = (Returned, compile sys cfg nm gofiles pkgdir w)"
    by (simp add: runBuild_def)
qed

theorem missing_profile_is_a_warning_witness:
  "flagAlloc (initial_world\<lparr>flagAlloc := True\<rparr>) \<and> \<not> is6g default_settings
   \<and> run_err (exec profileless_system (initial_world\<lparr>flagAlloc := True\<rparr>)
        (compile_command default_settings (initial_world\<lparr>flagAlloc := True\<rparr>) [''a.go'']
           ''/go/src/unicode'')) = None
   \<and> run_files (exec profileless_system (initial_world\<lparr>flagAlloc := True\<rparr>)
        (compile_command default_settings (initial_world\<lparr>flagAlloc := True\<rparr>) [''a.go'']
           ''/go/src/unicode''))
        (resolve profileless_system (''/go/src/unicode'' @ ''/_compilebench_.memprof'')) = None
   \<and> stdout (compile profileless_system default_settings ''BenchmarkUnicode'' [''a.go'']
         ''/go/src/unicode'' (initial_world\<lparr>flagAlloc := True\<rparr>))
       = [''BenchmarkUnicode 1 1234 ns/op 1000 user-ns/op 0 B/op 0 allocs/op\<newline>'']
   \<and> ''compilebench: cannot find memory profile after compilation\<newline>''
       \<in> set (stderr (compile profileless_system default_settings ''BenchmarkUnicode'' [''a.go'']
                 ''/go/src/unicode'' (initial_world\<lparr>flagAlloc := True\<rparr>)))
   \<and> build_Import profileless_system (initial_world\<lparr>flagAlloc := True\<rparr>) ''unicode''
       = Inr ([''a.go''], ''/go/src/unicode'')
   \<and> runBuild profileless_system default_settings ''BenchmarkUnicode'' ''unicode'' []
         (initial_world\<lparr>flagAlloc := True\<rparr>)
       = (Returned, compile profileless_system default_settings ''BenchmarkUnicode'' [''a.go'']
            ''/go/src/unicode'' (initial_world\<lparr>flagAlloc := True\<rparr>))"
proof -
  let ?w = "initial_world\<lparr>flagAlloc := True\<rparr>"
  note t = missing_profile_is_a_warning
    [where sys = profileless_system and cfg = default_settings and w = ?w and gofiles = "[''a.go'']"
       and pkgdir = "''/go/src/unicode''" and nm = "''BenchmarkUnicode''" and dir = "''unicode''"]
  have h1: "flagAlloc ?w \<and> \<not> is6g default_settings"
    by (simp add: default_settings_def)
  have h2: "run_err (exec profileless_system ?w
        (compile_command default_settings ?w [''a.go''] ''/go/src/unicode'')) = None"
    by (simp add: profileless_system_def working_system_def)
  have h3: "run_files (exec profileless_system ?w
        (compile_command default_settings ?w [''a.go''] ''/go/src/unicode''))
        (resolve profileless_system (''/go/src/unicode'' @ ''/_compilebench_.memprof'')) = None"
    by (simp add: profileless_system_def working_system_def compile_command_def initial_world_def
          Let_def)
  have h4: "build_Import profileless_system ?w ''unicode'' = Inr ([''a.go''], ''/go/src/unicode'')"
    by (simp add: profileless_system_def working_system_def)
  have v: "run_wall (exec profileless_system v c) = 1234" "run_user (exec profileless_system v c) = 1000"
    for v c
    by (simp_all add: profileless_system_def working_system_def)
  have i: "itoa 1234 = ''1234''" "itoa 1000 = ''1000''" "itoa 0 = ''0''"
    by (simp_all add: numeral_eval char_eval)
  from mp [OF conjunct1 [OF t]] h1 h2 h3
  have r: "stdout (compile profileless_system default_settings ''BenchmarkUnicode'' [''a.go'']
         ''/go/src/unicode'' ?w)
       = stdout ?w @ [spec_record_line ''BenchmarkUnicode''
               [(itoa 1234, ''ns/op''), (itoa 1000, ''user-ns/op''),
                (itoa 0, ''B/op''), (itoa 0, ''allocs/op'')] @ [newline]]
     \<and> ''compilebench: cannot find memory profile after compilation\<newline>''
       \<in> set (stderr (compile profileless_system default_settings ''BenchmarkUnicode'' [''a.go'']
                 ''/go/src/unicode'' ?w))"
    by (simp only: v simp_thms)
  then have r1: "stdout (compile profileless_system default_settings ''BenchmarkUnicode'' [''a.go'']
         ''/go/src/unicode'' ?w)
       = [''BenchmarkUnicode 1 1234 ns/op 1000 user-ns/op 0 B/op 0 allocs/op\<newline>'']"
    by (simp add: i spec_record_line_def newline_def initial_world_def)
  have r2: "runBuild profileless_system default_settings ''BenchmarkUnicode'' ''unicode'' [] ?w
       = (Returned, compile profileless_system default_settings ''BenchmarkUnicode'' [''a.go'']
            ''/go/src/unicode'' ?w)"
    using mp [OF conjunct2 [OF t]] h4 by simp
  show ?thesis
    using h1 h2 h3 h4 r1 r2 conjunct2 [OF r] by (simp only: simp_thms)
qed

text \<open>In the older file the missing profile ends the process, and no record is printed.\<close>

theorem older_missing_profile_is_fatal_counterexample:
  "run_err (exec profileless_system initial_world
      (timing_command0 default_settings [''a.go''] ''/go/src/html/template'')) = None
   \<and> fst (runBuild0 profileless_system default_settings ''BenchmarkTemplate'' ''html/template''
           initial_world) = Exited 1
   \<and> stdout (snd (runBuild0 profileless_system default_settings ''BenchmarkTemplate''
                    ''html/template'' initial_world)) = []
   \<and> stderr (snd (runBuild0 profileless_system default_settings ''BenchmarkTemplate''
                    ''html/template'' initial_world))
       = [''compilebench: cannot find memory profile after compilation\<newline>'']"
proof -
  let ?r = "runBuild0 profileless_system default_settings ''BenchmarkTemplate'' ''html/template''
              initial_world"
  have a: "run_err (exec profileless_system initial_world
      (timing_command0 default_settings [''a.go''] ''/go/src/html/template'')) = None"
    by (simp add: profileless_system_def working_system_def)
  have b: "fst ?r = Exited 1"
    by (simp add: older_eval profileless_system_def working_system_def)
  have c: "stdout (snd ?r) = []"
    by (simp add: older_eval profileless_system_def working_system_def)
  have d: "stderr (snd ?r) = [''compilebench: cannot find memory profile after compilation\<newline>'']"
    by (simp add: older_eval profileless_system_def working_system_def)
  show ?thesis
    by (intro conjI a b c d)
qed

section \<open>The files a benchmark leaves\<close>

lemma read_memprofile_removes:
  assumes "flagAlloc w \<or> flagMemprofile w \<noteq> []"
    and "\<not> remove_fails sys (pkgdir @ ''/_compilebench_.memprof'')"
  shows "files (snd (read_memprofile sys pkgdir w)) (resolve sys (pkgdir @ ''/_compilebench_.memprof''))
           = None"
  using assms
  by (auto simp: read_memprofile_def Let_def case_prod_beta Remove_def)

lemma copy_cpuprofile_removes:
  assumes "flagCpuprofile w \<noteq> []" and "\<not> remove_fails sys (pkgdir @ ''/_compilebench_.cpuprof'')"
  shows "files (copy_cpuprofile sys pkgdir w) (resolve sys (pkgdir @ ''/_compilebench_.cpuprof''))
           = None"
  using assms
  by (auto simp: copy_cpuprofile_def Let_def case_prod_beta Remove_def)

lemma copy_cpuprofile_other:
  assumes "files w q = None" and "flagCpuprofile w \<noteq> [] \<longrightarrow> q \<noteq> resolve sys (flagCpuprofile w)"
  shows "files (copy_cpuprofile sys pkgdir w) q = None"
  using assms
  by (auto simp: copy_cpuprofile_def Let_def case_prod_beta Remove_def WriteFile_def ReadFile_def
        split: option.splits)

lemma files_Remove_other: "files w q = None \<Longrightarrow> files (Remove sys p w) q = None"
  by (simp add: Remove_def)

lemma files_Remove_same: "\<not> remove_fails sys p \<Longrightarrow> files (Remove sys p w) (resolve sys p) = None"
  by (simp add: Remove_def)

lemma compile_succeeds:
  assumes "run_err (exec sys (clear_flags_6g cfg w)
             (compile_command cfg (clear_flags_6g cfg w) gofiles pkgdir)) = None"
  shows "files (compile sys cfg nm gofiles pkgdir w)
       = files (Remove sys (pkgdir @ ''/_compilebench_.o'')
           (copy_cpuprofile sys pkgdir
             (snd (read_memprofile sys pkgdir
                (snd (Run sys (compile_command cfg (clear_flags_6g cfg w) gofiles pkgdir)
                       (clear_flags_6g cfg w)))))))"
  using assms by (simp add: compile_def Let_def case_prod_beta Remove_def)

lemma files_read_memprofile:
  assumes "flagAlloc w" and "flagMemprofile w = []"
    and "\<not> remove_fails sys (pkgdir @ ''/_compilebench_.memprof'')"
  shows "files (snd (read_memprofile sys pkgdir w))
           = (files w)(resolve sys (pkgdir @ ''/_compilebench_.memprof'') := None)"
  using assms by (simp add: read_memprofile_def Let_def case_prod_beta Remove_def)

lemma files_copy_cpuprofile:
  assumes "flagCpuprofile w \<noteq> []" and "write_fails sys (flagCpuprofile w) = None"
    and "\<not> remove_fails sys (pkgdir @ ''/_compilebench_.cpuprof'')"
    and "files w (resolve sys (pkgdir @ ''/_compilebench_.cpuprof'')) = Some d"
  shows "files (copy_cpuprofile sys pkgdir w)
           = (files w)(resolve sys (flagCpuprofile w) \<mapsto> d,
                       resolve sys (pkgdir @ ''/_compilebench_.cpuprof'') := None)"
  using assms
  by (simp add: copy_cpuprofile_def Let_def case_prod_beta Remove_def WriteFile_def ReadFile_def)

text \<open>With \<open>-alloc\<close> and \<open>-cpuprofile\<close> given the other spelling of the path of the memory
  profile, the file of the memory profile holds the CPU profile when the compilation is
  over.\<close>

lemma cpuprofile_copy_takes_the_place_of_the_memory_profile:
  "files (compile respelling_system default_settings ''BenchmarkUnicode'' [''a.go'']
        ''/go/src/unicode'' (initial_world\<lparr>flagAlloc := True,
              flagCpuprofile := ''/go/src/unicode/./_compilebench_.memprof''\<rparr>))
        (resolve respelling_system ''/go/src/unicode/_compilebench_.memprof'') = Some ''samples''"
proof -
  let ?w = "initial_world\<lparr>flagAlloc := True,
              flagCpuprofile := ''/go/src/unicode/./_compilebench_.memprof''\<rparr>"
  let ?c = "compile_command default_settings ?w [''a.go''] ''/go/src/unicode''"
  let ?w1 = "snd (Run respelling_system ?c ?w)"
  let ?w2 = "snd (read_memprofile respelling_system ''/go/src/unicode'' ?w1)"
  let ?w3 = "copy_cpuprofile respelling_system ''/go/src/unicode'' ?w2"
  have c0: "clear_flags_6g default_settings ?w = ?w"
    by (simp add: clear_flags_6g_def default_settings_def)
  have sy: "run_err (exec respelling_system v cm) = None" "\<not> remove_fails respelling_system p"
    "write_fails respelling_system p = None" for v cm p
    by (simp_all add: respelling_system_def working_system_def)
  have r1: "resolve respelling_system ''/go/src/unicode/./_compilebench_.memprof''
       = ''/go/src/unicode/_compilebench_.memprof''"
    by (simp add: respelling_system_def)
  have r2: "resolve respelling_system (''/go/src/unicode'' @ ''/_compilebench_.memprof'')
       = ''/go/src/unicode/_compilebench_.memprof''"
    "resolve respelling_system ''/go/src/unicode/_compilebench_.memprof''
       = ''/go/src/unicode/_compilebench_.memprof''"
    "resolve respelling_system (''/go/src/unicode'' @ ''/_compilebench_.cpuprof'')
       = ''/go/src/unicode/_compilebench_.cpuprof''"
    "resolve respelling_system (''/go/src/unicode'' @ ''/_compilebench_.o'')
       = ''/go/src/unicode/_compilebench_.o''"
    by (simp_all add: respelling_system_def)
  have d: "cmd_dir ?c = ''/go/src/unicode''"
    by (simp add: compile_command_def Let_def)
  have f1: "files ?w1 ''/go/src/unicode/_compilebench_.cpuprof'' = Some ''samples''"
    by (simp add: Run_def Let_def respelling_system_def working_system_def d)
  have fl: "flagAlloc ?w1" "flagMemprofile ?w1 = []"
    "flagCpuprofile ?w2 = ''/go/src/unicode/./_compilebench_.memprof''"
    by (simp_all add: initial_world_def)
  have f2: "files ?w2 = (files ?w1)(''/go/src/unicode/_compilebench_.memprof'' := None)"
    using files_read_memprofile [OF fl(1,2) sy(2)] by (simp only: r2)
  have f2c: "files ?w2 (resolve respelling_system (''/go/src/unicode'' @ ''/_compilebench_.cpuprof''))
      = Some ''samples''"
    using f1 by (simp only: r2 f2) simp
  have ne: "flagCpuprofile ?w2 \<noteq> []"
    by (simp only: fl) simp
  have f3: "files ?w3 ''/go/src/unicode/_compilebench_.memprof'' = Some ''samples''"
    using files_copy_cpuprofile [OF ne sy(3) sy(2) f2c]
    by (simp only: fl r1 r2) simp
  have f4: "files (Remove respelling_system (''/go/src/unicode'' @ ''/_compilebench_.o'') ?w3)
      = (files ?w3)(''/go/src/unicode/_compilebench_.o'' := None)"
    by (simp only: Remove_def sy r2 if_False) simp
  have "files (compile respelling_system default_settings ''BenchmarkUnicode'' [''a.go'']
        ''/go/src/unicode'' ?w) = (files ?w3)(''/go/src/unicode/_compilebench_.o'' := None)"
    using compile_succeeds [of respelling_system default_settings ?w "[''a.go'']" "''/go/src/unicode''"]
    by (simp only: c0 sy f4)
  then show ?thesis
    using f3 by (simp only: r2) simp
qed

text \<open>Claim C8, as amended: in \<open>main.go\<close>. After a compilation that succeeded, the files that
  the paths of the object file, of the memory profile (when \<open>-alloc\<close> or \<open>-memprofile\<close> asked
  for it) and of the CPU profile (when \<open>-cpuprofile\<close> asked for it; the flags as they are
  after the switch-off for \<open>6g\<close>) name are gone when \<open>runBuild\<close> returns, and so is the
  executable after a size benchmark whose build succeeded, provided the removals
  themselves succeed and the path given to \<open>-cpuprofile\<close> does not name, in any spelling,
  the file of the memory profile. Whether the copies of the profiles can be written plays
  no part.\<close>

theorem artifacts_are_removed_after_a_successful_build:
  "(run_err (exec sys (clear_flags_6g cfg w)
        (compile_command cfg (clear_flags_6g cfg w) gofiles pkgdir)) = None
      \<and> \<not> remove_fails sys (pkgdir @ ''/_compilebench_.o'')
      \<and> \<not> remove_fails sys (pkgdir @ ''/_compilebench_.memprof'')
      \<and> \<not> remove_fails sys (pkgdir @ ''/_compilebench_.cpuprof'')
      \<and> (flagCpuprofile (clear_flags_6g cfg w) \<noteq> []
          \<longrightarrow> resolve sys (flagCpuprofile (clear_flags_6g cfg w))
                \<noteq> resolve sys (pkgdir @ ''/_compilebench_.memprof''))
    \<longrightarrow> files (compile sys cfg nm gofiles pkgdir w) (resolve sys (pkgdir @ ''/_compilebench_.o''))
          = None
        \<and> (flagAlloc (clear_flags_6g cfg w) \<or> flagMemprofile (clear_flags_6g cfg w) \<noteq> []
            \<longrightarrow> files (compile sys cfg nm gofiles pkgdir w)
                  (resolve sys (pkgdir @ ''/_compilebench_.memprof'')) = None)
        \<and> (flagCpuprofile (clear_flags_6g cfg w) \<noteq> []
            \<longrightarrow> files (compile sys cfg nm gofiles pkgdir w)
                  (resolve sys (pkgdir @ ''/_compilebench_.cpuprof'')) = None))
   \<and> (run_err (exec sys w (size_build_command cfg path)) = None
      \<and> \<not> remove_fails sys ''_compilebenchout_''
    \<longrightarrow> files (runSize sys cfg nm path w) (resolve sys ''_compilebenchout_'') = None)"
proof (intro conjI impI)
  let ?w0 = "clear_flags_6g cfg w"
  let ?w1 = "snd (Run sys (compile_command cfg ?w0 gofiles pkgdir) ?w0)"
  let ?w2 = "snd (read_memprofile sys pkgdir ?w1)"
  let ?w3 = "copy_cpuprofile sys pkgdir ?w2"
  assume a: "run_err (exec sys ?w0 (compile_command cfg ?w0 gofiles pkgdir)) = None
      \<and> \<not> remove_fails sys (pkgdir @ ''/_compilebench_.o'')
      \<and> \<not> remove_fails sys (pkgdir @ ''/_compilebench_.memprof'')
      \<and> \<not> remove_fails sys (pkgdir @ ''/_compilebench_.cpuprof'')
      \<and> (flagCpuprofile ?w0 \<noteq> []
          \<longrightarrow> resolve sys (flagCpuprofile ?w0) \<noteq> resolve sys (pkgdir @ ''/_compilebench_.memprof''))"
  then have c: "files (compile sys cfg nm gofiles pkgdir w)
       = files (Remove sys (pkgdir @ ''/_compilebench_.o'') ?w3)"
    by (simp add: compile_succeeds)
  from a show "files (compile sys cfg nm gofiles pkgdir w) (resolve sys (pkgdir @ ''/_compilebench_.o''))
          = None"
    by (simp add: c files_Remove_same)
  {
    assume "flagAlloc ?w0 \<or> flagMemprofile ?w0 \<noteq> []"
    then have "flagAlloc ?w1 \<or> flagMemprofile ?w1 \<noteq> []"
      by simp
    with a have "files ?w2 (resolve sys (pkgdir @ ''/_compilebench_.memprof'')) = None"
      by (simp add: read_memprofile_removes)
    moreover from a have "flagCpuprofile ?w2 \<noteq> []
        \<longrightarrow> resolve sys (pkgdir @ ''/_compilebench_.memprof'') \<noteq> resolve sys (flagCpuprofile ?w2)"
      by auto
    ultimately have "files ?w3 (resolve sys (pkgdir @ ''/_compilebench_.memprof'')) = None"
      by (rule copy_cpuprofile_other)
    then show "files (compile sys cfg nm gofiles pkgdir w)
        (resolve sys (pkgdir @ ''/_compilebench_.memprof'')) = None"
      by (simp add: c files_Remove_other)
  }
  {
    assume "flagCpuprofile ?w0 \<noteq> []"
    then have "flagCpuprofile ?w2 \<noteq> []"
      by simp
    with a have "files ?w3 (resolve sys (pkgdir @ ''/_compilebench_.cpuprof'')) = None"
      by (simp add: copy_cpuprofile_removes)
    then show "files (compile sys cfg nm gofiles pkgdir w)
        (resolve sys (pkgdir @ ''/_compilebench_.cpuprof'')) = None"
      by (simp add: c files_Remove_other)
  }
next
  assume "run_err (exec sys w (size_build_command cfg path)) = None
      \<and> \<not> remove_fails sys ''_compilebenchout_''"
  then show "files (runSize sys cfg nm path w) (resolve sys ''_compilebenchout_'') = None"
    by (simp add: runSize_def case_prod_beta files_Remove_same)
qed

theorem artifacts_are_removed_after_a_successful_build_witness:
  "run_err (exec unwritable_system
       (clear_flags_6g default_settings
          (initial_world\<lparr>flagAlloc := True, flagCpuprofile := ''cpu.out'', flagMemprofile := ''mem.out''\<rparr>))
       (compile_command default_settings
          (clear_flags_6g default_settings
             (initial_world\<lparr>flagAlloc := True, flagCpuprofile := ''cpu.out'', flagMemprofile := ''mem.out''\<rparr>))
          [''a.go''] ''/go/src/unicode'')) = None
   \<and> write_fails unwritable_system ''mem.out'' = Some ''permission denied''
   \<and> write_fails unwritable_system ''cpu.out'' = Some ''permission denied''
   \<and> resolve unwritable_system ''cpu.out''
       \<noteq> resolve unwritable_system (''/go/src/unicode'' @ ''/_compilebench_.memprof'')
   \<and> files (compile unwritable_system default_settings ''BenchmarkUnicode'' [''a.go''] ''/go/src/unicode''
        (initial_world\<lparr>flagAlloc := True, flagCpuprofile := ''cpu.out'', flagMemprofile := ''mem.out''\<rparr>))
       (resolve unwritable_system (''/go/src/unicode'' @ ''/_compilebench_.o'')) = None
   \<and> files (compile unwritable_system default_settings ''BenchmarkUnicode'' [''a.go''] ''/go/src/unicode''
        (initial_world\<lparr>flagAlloc := True, flagCpuprofile := ''cpu.out'', flagMemprofile := ''mem.out''\<rparr>))
       (resolve unwritable_system (''/go/src/unicode'' @ ''/_compilebench_.memprof'')) = None
   \<and> files (compile unwritable_system default_settings ''BenchmarkUnicode'' [''a.go''] ''/go/src/unicode''
        (initial_world\<lparr>flagAlloc := True, flagCpuprofile := ''cpu.out'', flagMemprofile := ''mem.out''\<rparr>))
       (resolve unwritable_system (''/go/src/unicode'' @ ''/_compilebench_.cpuprof'')) = None
   \<and> run_err (exec unwritable_system initial_world (size_build_command default_settings ''cmd/go''))
       = None
   \<and> files (runSize unwritable_system default_settings ''BenchmarkCmdGoSize'' ''cmd/go'' initial_world)
       (resolve unwritable_system ''_compilebenchout_'') = None"
proof -
  let ?w = "initial_world\<lparr>flagAlloc := True, flagCpuprofile := ''cpu.out'', flagMemprofile := ''mem.out''\<rparr>"
  note t = artifacts_are_removed_after_a_successful_build
    [where sys = unwritable_system and cfg = default_settings and w = ?w and gofiles = "[''a.go'']"
       and pkgdir = "''/go/src/unicode''" and nm = "''BenchmarkUnicode''"]
  note t2 = artifacts_are_removed_after_a_successful_build
    [where sys = unwritable_system and cfg = default_settings and w = initial_world
       and path = "''cmd/go''" and nm = "''BenchmarkCmdGoSize''"]
  have c: "clear_flags_6g default_settings ?w = ?w"
    by (simp add: clear_flags_6g_def default_settings_def)
  have e: "run_err (exec unwritable_system v cm) = None" for v cm
    by (simp add: unwritable_system_def working_system_def)
  have rm: "\<not> remove_fails unwritable_system p" for p
    by (simp add: unwritable_system_def working_system_def)
  have wf: "write_fails unwritable_system p = Some ''permission denied''" for p
    by (simp add: unwritable_system_def)
  have rs: "resolve unwritable_system p = p" for p
    by (simp add: unwritable_system_def working_system_def)
  have fl: "flagAlloc ?w" "flagCpuprofile ?w = ''cpu.out''"
    by simp_all
  have ne: "resolve unwritable_system ''cpu.out''
      \<noteq> resolve unwritable_system (''/go/src/unicode'' @ ''/_compilebench_.memprof'')"
    by (simp add: rs)
  have h: "run_err (exec unwritable_system (clear_flags_6g default_settings ?w)
        (compile_command default_settings (clear_flags_6g default_settings ?w) [''a.go'']
           ''/go/src/unicode'')) = None
      \<and> \<not> remove_fails unwritable_system (''/go/src/unicode'' @ ''/_compilebench_.o'')
      \<and> \<not> remove_fails unwritable_system (''/go/src/unicode'' @ ''/_compilebench_.memprof'')
      \<and> \<not> remove_fails unwritable_system (''/go/src/unicode'' @ ''/_compilebench_.cpuprof'')
      \<and> (flagCpuprofile (clear_flags_6g default_settings ?w) \<noteq> []
          \<longrightarrow> resolve unwritable_system (flagCpuprofile (clear_flags_6g default_settings ?w))
              \<noteq> resolve unwritable_system (''/go/src/unicode'' @ ''/_compilebench_.memprof''))"
    using e rm ne by (simp only: c fl simp_thms)
  note r = mp [OF conjunct1 [OF t] h]
  have r1: "files (compile unwritable_system default_settings ''BenchmarkUnicode'' [''a.go''] ''/go/src/unicode'' ?w)
       (resolve unwritable_system (''/go/src/unicode'' @ ''/_compilebench_.o'')) = None"
    using r by (rule conjunct1)
  have r2: "files (compile unwritable_system default_settings ''BenchmarkUnicode'' [''a.go''] ''/go/src/unicode'' ?w)
       (resolve unwritable_system (''/go/src/unicode'' @ ''/_compilebench_.memprof'')) = None"
    using conjunct1 [OF conjunct2 [OF r]] fl(1) by (simp only: c simp_thms)
  have r3: "files (compile unwritable_system default_settings ''BenchmarkUnicode'' [''a.go''] ''/go/src/unicode'' ?w)
       (resolve unwritable_system (''/go/src/unicode'' @ ''/_compilebench_.cpuprof'')) = None"
    using conjunct2 [OF conjunct2 [OF r]] by (simp add: c)
  have r4: "files (runSize unwritable_system default_settings ''BenchmarkCmdGoSize'' ''cmd/go'' initial_world)
       (resolve unwritable_system ''_compilebenchout_'') = None"
    using mp [OF conjunct2 [OF t2]] e rm by blast
  show ?thesis
    using e [of "clear_flags_6g default_settings ?w"] e [of initial_world] wf ne r1 r2 r3 r4
    by (simp only: simp_thms)
qed

text \<open>In the older file a copy of the memory profile that cannot be written ends the
  process before anything is removed: the object file and the profile stay. In \<open>main.go\<close>,
  when the path given to \<open>-cpuprofile\<close> is another spelling of the path of the memory
  profile, the profile is removed and the copy of the CPU profile is then written in its
  place, where it stays.\<close>

theorem older_failed_copy_leaves_the_artifacts_counterexample:
  "write_fails unwritable_system ''mem.out'' = Some ''permission denied''
   \<and> fst (runBuild0 unwritable_system default_settings ''BenchmarkTemplate'' ''html/template''
           (initial_world\<lparr>flagMemprofile := ''mem.out''\<rparr>)) = Exited 1
   \<and> stdout (snd (runBuild0 unwritable_system default_settings ''BenchmarkTemplate'' ''html/template''
           (initial_world\<lparr>flagMemprofile := ''mem.out''\<rparr>)))
       = [''BenchmarkBenchmarkTemplate 1 1234 ns/op 56 B/op 7 allocs/op\<newline>'']
   \<and> files (snd (runBuild0 unwritable_system default_settings ''BenchmarkTemplate'' ''html/template''
           (initial_world\<lparr>flagMemprofile := ''mem.out''\<rparr>)))
        (resolve unwritable_system ''/go/src/html/template/_compilebench_.o'') = Some ''object''
   \<and> files (snd (runBuild0 unwritable_system default_settings ''BenchmarkTemplate'' ''html/template''
           (initial_world\<lparr>flagMemprofile := ''mem.out''\<rparr>)))
        (resolve unwritable_system ''/go/src/html/template/_compilebench_.memprof'')
       = Some ''# TotalAlloc = 56\<newline># Mallocs = 7\<newline>''
   \<and> resolve respelling_system ''/go/src/unicode/./_compilebench_.memprof''
       = resolve respelling_system ''/go/src/unicode/_compilebench_.memprof''
   \<and> runBuild respelling_system default_settings ''BenchmarkUnicode'' ''unicode'' []
         (initial_world\<lparr>flagAlloc := True,
            flagCpuprofile := ''/go/src/unicode/./_compilebench_.memprof''\<rparr>)
       = (Returned, compile respelling_system default_settings ''BenchmarkUnicode'' [''a.go'']
            ''/go/src/unicode''
            (initial_world\<lparr>flagAlloc := True,
               flagCpuprofile := ''/go/src/unicode/./_compilebench_.memprof''\<rparr>))
   \<and> files (compile respelling_system default_settings ''BenchmarkUnicode'' [''a.go'']
        ''/go/src/unicode''
        (initial_world\<lparr>flagAlloc := True,
           flagCpuprofile := ''/go/src/unicode/./_compilebench_.memprof''\<rparr>))
        (resolve respelling_system ''/go/src/unicode/_compilebench_.memprof'') = Some ''samples''"
proof -
  let ?r = "runBuild0 unwritable_system default_settings ''BenchmarkTemplate'' ''html/template''
              (initial_world\<lparr>flagMemprofile := ''mem.out''\<rparr>)"
  let ?w = "initial_world\<lparr>flagAlloc := True,
              flagCpuprofile := ''/go/src/unicode/./_compilebench_.memprof''\<rparr>"
  have sc: "scan_memprof ''# TotalAlloc = 56\<newline># Mallocs = 7\<newline>'' = \<lparr>allocs = 7, bytes = 56\<rparr>"
    by (simp add: scan_memprof_def scan_line_def strings_eval ParseInt_eval char_eval)
  have rs: "resolve unwritable_system p = p" for p
    by (simp add: unwritable_system_def working_system_def)
  have a: "write_fails unwritable_system ''mem.out'' = Some ''permission denied''"
    by (simp add: unwritable_system_def)
  have b: "fst ?r = Exited 1"
    by (simp add: older_eval report0_def WriteFile_def fmt_Printf_def unwritable_system_def
          working_system_def)
  have c: "stdout (snd ?r) = [''BenchmarkBenchmarkTemplate 1 1234 ns/op 56 B/op 7 allocs/op\<newline>'']"
    by (simp add: older_eval report0_stdout sc spec_record_line_def unwritable_system_def
          working_system_def)
  have d: "files (snd ?r) (resolve unwritable_system ''/go/src/html/template/_compilebench_.o'')
       = Some ''object''"
    unfolding rs
    by (simp add: older_eval report0_def WriteFile_def fmt_Printf_def unwritable_system_def
          working_system_def)
  have e: "files (snd ?r) (resolve unwritable_system ''/go/src/html/template/_compilebench_.memprof'')
       = Some ''# TotalAlloc = 56\<newline># Mallocs = 7\<newline>''"
    unfolding rs
    by (simp add: older_eval report0_def WriteFile_def fmt_Printf_def unwritable_system_def
          working_system_def)
  have f: "resolve respelling_system ''/go/src/unicode/./_compilebench_.memprof''
       = resolve respelling_system ''/go/src/unicode/_compilebench_.memprof''"
    by (simp add: respelling_system_def)
  have g: "runBuild respelling_system default_settings ''BenchmarkUnicode'' ''unicode'' [] ?w
       = (Returned, compile respelling_system default_settings ''BenchmarkUnicode'' [''a.go'']
            ''/go/src/unicode'' ?w)"
    by (simp add: runBuild_def respelling_system_def working_system_def)
  show ?thesis
    by (intro conjI a b c d e f g cpuprofile_copy_takes_the_place_of_the_memory_profile)
qed

end
